theory Spec2Isabelle
  imports Main "HOL-Library.Word" "HOL-Library.Signed_Division" "HOL-Library.AList"
begin

unbundle bit_operations_syntax

section \<open>Constants of the platform headers\<close>

text \<open>
  The error numbers of \<open>errno.h\<close> and the enumerators of \<open>linux/videodev2.h\<close> and
  \<open>hardware/camera3.h\<close> that the sources name. The headers are not part of the
  repository's sources; the values are those of the Linux and Android headers.
\<close>

definition ENOENT :: int where "ENOENT = 2"
definition EIO :: int where "EIO = 5"
definition EBUSY :: int where "EBUSY = 16"
definition ENODEV :: int where "ENODEV = 19"
definition EINVAL :: int where "EINVAL = 22"
definition ENOTTY :: int where "ENOTTY = 25"
definition ETIME :: int where "ETIME = 62"

definition V4L2_CTRL_TYPE_INTEGER64 :: "32 word" where "V4L2_CTRL_TYPE_INTEGER64 = 5"
definition V4L2_CTRL_TYPE_STRING :: "32 word" where "V4L2_CTRL_TYPE_STRING = 7"
definition V4L2_CTRL_TYPE_BITMASK :: "32 word" where "V4L2_CTRL_TYPE_BITMASK = 8"
definition V4L2_MEMORY_USERPTR :: "32 word" where "V4L2_MEMORY_USERPTR = 2"

definition GRALLOC_USAGE_SW_READ_OFTEN :: "32 word" where "GRALLOC_USAGE_SW_READ_OFTEN = 0x3"
definition GRALLOC_USAGE_SW_WRITE_OFTEN :: "32 word" where "GRALLOC_USAGE_SW_WRITE_OFTEN = 0x30"
definition HAL_DATASPACE_V0_JFIF :: int where "HAL_DATASPACE_V0_JFIF = 146931712"
definition HAL_PIXEL_FORMAT_BLOB :: int where "HAL_PIXEL_FORMAT_BLOB = 33"
definition HAL_PIXEL_FORMAT_IMPLEMENTATION_DEFINED :: int where
  "HAL_PIXEL_FORMAT_IMPLEMENTATION_DEFINED = 34"
definition HAL_PIXEL_FORMAT_YCbCr_420_888 :: int where "HAL_PIXEL_FORMAT_YCbCr_420_888 = 35"
definition ANDROID_SCALER_AVAILABLE_STREAM_CONFIGURATIONS_OUTPUT :: int where
  "ANDROID_SCALER_AVAILABLE_STREAM_CONFIGURATIONS_OUTPUT = 0"
definition ANDROID_SENSOR_TIMESTAMP :: int where "ANDROID_SENSOR_TIMESTAMP = 917520"
definition INT64_MAX :: int where "INT64_MAX = 9223372036854775807"

definition CAMERA3_STREAM_ROTATION_0 :: int where "CAMERA3_STREAM_ROTATION_0 = 0"
definition CAMERA3_STREAM_CONFIGURATION_NORMAL_MODE :: "32 word" where
  "CAMERA3_STREAM_CONFIGURATION_NORMAL_MODE = 0"
definition CAMERA3_BUFFER_STATUS_OK :: int where "CAMERA3_BUFFER_STATUS_OK = 0"
definition CAMERA3_MSG_ERROR_REQUEST :: int where "CAMERA3_MSG_ERROR_REQUEST = 2"
definition CAMERA_SYNC_TIMEOUT :: int where "CAMERA_SYNC_TIMEOUT = 5000"

definition CAMERA3_TEMPLATE_PREVIEW :: int where "CAMERA3_TEMPLATE_PREVIEW = 1"
definition CAMERA3_TEMPLATE_STILL_CAPTURE :: int where "CAMERA3_TEMPLATE_STILL_CAPTURE = 2"
definition CAMERA3_TEMPLATE_VIDEO_RECORD :: int where "CAMERA3_TEMPLATE_VIDEO_RECORD = 3"
definition CAMERA3_TEMPLATE_VIDEO_SNAPSHOT :: int where "CAMERA3_TEMPLATE_VIDEO_SNAPSHOT = 4"
definition CAMERA3_TEMPLATE_ZERO_SHUTTER_LAG :: int where "CAMERA3_TEMPLATE_ZERO_SHUTTER_LAG = 5"
definition CAMERA3_TEMPLATE_MANUAL :: int where "CAMERA3_TEMPLATE_MANUAL = 6"
definition CAMERA3_TEMPLATE_COUNT :: int where "CAMERA3_TEMPLATE_COUNT = 7"

definition CAMERA3_STREAM_OUTPUT :: int where "CAMERA3_STREAM_OUTPUT = 0"
definition CAMERA3_STREAM_INPUT :: int where "CAMERA3_STREAM_INPUT = 1"
definition CAMERA3_STREAM_BIDIRECTIONAL :: int where "CAMERA3_STREAM_BIDIRECTIONAL = 2"

section \<open>The V4L2 wrapper (v4l2_wrapper.cpp)\<close>

subsection \<open>Kernel structures\<close>

record v4l2_queryctrl =
  qc_id :: "32 word"
  qc_type :: "32 word"
  qc_name :: "8 word list"
  qc_minimum :: "32 word"        \<comment> \<open>\<open>__s32\<close>\<close>
  qc_maximum :: "32 word"        \<comment> \<open>\<open>__s32\<close>\<close>
  qc_step :: "32 word"           \<comment> \<open>\<open>__s32\<close>\<close>
  qc_default_value :: "32 word"  \<comment> \<open>\<open>__s32\<close>\<close>
  qc_flags :: "32 word"

record v4l2_query_ext_ctrl =
  qe_id :: "32 word"
  qe_type :: "32 word"
  qe_name :: "8 word list"
  qe_minimum :: "64 word"        \<comment> \<open>\<open>__s64\<close>\<close>
  qe_maximum :: "64 word"        \<comment> \<open>\<open>__s64\<close>\<close>
  qe_step :: "64 word"           \<comment> \<open>\<open>__u64\<close>\<close>
  qe_default_value :: "64 word"  \<comment> \<open>\<open>__s64\<close>\<close>
  qe_flags :: "32 word"
  qe_elem_size :: "32 word"
  qe_elems :: "32 word"

record v4l2_control =
  ctrl_id :: "32 word"
  ctrl_value :: "32 word"        \<comment> \<open>\<open>__s32\<close>\<close>

record v4l2_format =
  fmt_type :: "32 word"
  pix_pixelformat :: "32 word"
  pix_width :: "32 word"
  pix_height :: "32 word"
  pix_bytesperline :: "32 word"
  pix_sizeimage :: "32 word"

record v4l2_requestbuffers =
  rb_count :: "32 word"
  rb_type :: "32 word"
  rb_memory :: "32 word"

record v4l2_buffer =
  buf_index :: "32 word"
  buf_type :: "32 word"
  buf_memory :: "32 word"
  buf_userptr :: "64 word"
  buf_length :: "32 word"

record camera3_stream_buffer =
  sb_stream :: nat
  sb_buffer :: nat
  sb_status :: int
  sb_acquire_fence :: int
  sb_release_fence :: int

text \<open>
  The framework's structures (hardware/camera3.h). A pointer to a \<open>Stream\<close> object is
  an address (\<open>nat\<close>), a null pointer is \<open>None\<close>. A stream configuration holds
  \<open>num_streams\<close> streams: \<open>num_streams\<close> is the length of \<open>cfg_streams\<close>.
\<close>

record camera3_stream =
  cs_stream_type :: int
  cs_width :: "32 word"
  cs_height :: "32 word"
  cs_format :: int
  cs_usage :: "32 word"
  cs_max_buffers :: "32 word"
  cs_priv :: "nat option"
  cs_data_space :: int
  cs_rotation :: int

record camera3_stream_configuration =
  cfg_streams :: "camera3_stream list"
  cfg_operation_mode :: "32 word"

text \<open>
  A metadata block (\<open>android::CameraMetadata\<close>) holds, for each tag, the values of its
  entry; the block is empty when it has no entry.
\<close>

type_synonym 'v metadata = "(int \<times> 'v list) list"

type_synonym CameraMetadata = "(64 word) metadata"

record CaptureRequest =
  cr_frame_number :: "32 word"
  cr_settings :: CameraMetadata
  cr_input_buffer :: "camera3_stream_buffer option"
  cr_output_buffers :: "camera3_stream_buffer list"

datatype camera3_notify_msg =
  CAMERA3_MSG_SHUTTER "32 word" "64 word"        \<comment> \<open>frame number, timestamp\<close>
  | CAMERA3_MSG_ERROR "32 word" "nat option" int  \<comment> \<open>frame number, error stream, error code\<close>

record camera3_capture_result =
  res_frame_number :: "32 word"
  res_result :: CameraMetadata
  res_num_output_buffers :: nat
  res_output_buffers :: "camera3_stream_buffer list"
  res_input_buffer :: "camera3_stream_buffer option"
  res_partial_result :: nat

datatype callback = notify camera3_notify_msg | process_capture_result camera3_capture_result

subsection \<open>Streams and stream formats\<close>

text \<open>
  Modelled from the spec: class \<open>Stream\<close> (stream.h, stream.cpp) is not under src/.
  Spec section 3: a stream has width, height, pixel format, usage flags, max buffer
  count, rotation, data-space and a "reuse" flag. Camera.cpp reads and writes
  \<open>mReuse\<close> directly and uses the getters and setters below. A stream is of input
  type when it is an input or a bidirectional stream, of output type when it is an
  output or a bidirectional stream (camera.cpp: "A stream may be both input and output
  (bidirectional)").
\<close>

record Stream =
  mReuse :: bool
  mType :: int
  mWidth :: "32 word"
  mHeight :: "32 word"
  mFormat :: int
  mUsage :: "32 word"
  mRotation :: int
  mDataSpace :: int
  mMaxBuffers :: "32 word"

definition isInputType :: "Stream \<Rightarrow> bool" where
  "isInputType s = (mType s = CAMERA3_STREAM_INPUT \<or> mType s = CAMERA3_STREAM_BIDIRECTIONAL)"

definition isOutputType :: "Stream \<Rightarrow> bool" where
  "isOutputType s = (mType s = CAMERA3_STREAM_OUTPUT \<or> mType s = CAMERA3_STREAM_BIDIRECTIONAL)"

text \<open>
  Modelled from the spec: class \<open>StreamFormat\<close> (stream_format.h) is not under src/.
  Spec section 3: a StreamFormat is (type, pixel format, width, height,
  bytes-per-line). Its constructors, its comparison, \<open>FillFormatRequest\<close> and
  \<open>Category\<close> are parameters of the model (record \<open>externals\<close> below).
\<close>

record StreamFormat =
  sf_type :: "32 word"
  sf_v4l2_pixel_format :: "32 word"
  sf_width :: "32 word"
  sf_height :: "32 word"
  sf_bytes_per_line :: "32 word"

datatype FormatCategory =
  kFormatCategoryRaw | kFormatCategoryStalling | kFormatCategoryNonStalling | kFormatCategoryUnknown

subsection \<open>The environment of the wrapper\<close>

text \<open>
  An ioctl returns a value and, when it fails, sets \<open>errno\<close>; it also rewrites the
  structure it was given. \<open>TEMP_FAILURE_RETRY\<close> repeats the call while it is
  interrupted; the answer below is the one the macro finally yields.
\<close>

type_synonym ioctl_answer = "int \<times> int"   \<comment> \<open>return value, \<open>errno\<close> when it fails\<close>

datatype ioctl_request =
  VIDIOC_QUERY_EXT_CTRL | VIDIOC_QUERYCTRL | VIDIOC_G_CTRL | VIDIOC_S_CTRL
  | VIDIOC_S_FMT | VIDIOC_REQBUFS | VIDIOC_QUERYBUF | VIDIOC_QBUF | VIDIOC_DQBUF
  | VIDIOC_STREAMON | VIDIOC_STREAMOFF

datatype gralloc_call = GrallocLock | GrallocUnlock | GrallocUnlockAllBuffers

text \<open>
  Everything the sources call that is not under src/: the driver behind each ioctl,
  the gralloc helper (v4l2_gralloc.h), the members of \<open>StreamFormat\<close>,
  \<open>Stream::isValidReuseStream\<close>, \<open>sync_wait\<close>, the virtual
  \<open>isValidRequest\<close>, the connection and the format queries of the wrapper that
  \<open>initCharacteristics\<close> uses (each answers with its return value and its output;
  a \<open>std::set\<close> is given as the list of its elements in iteration order), and the
  indeterminate contents of the locals and arrays that the sources leave uninitialised
  (\<open>query\<close> in QueryControl, \<open>control\<close> in GetControl, \<open>max_buffers\<close> in
  Camera::setupStreams, the array of \<open>new Stream*[n]\<close> in Camera::configureStreams).
\<close>

record externals =
  drv_QUERY_EXT_CTRL :: "v4l2_query_ext_ctrl \<Rightarrow> ioctl_answer \<times> v4l2_query_ext_ctrl"
  drv_QUERYCTRL :: "v4l2_queryctrl \<Rightarrow> ioctl_answer \<times> v4l2_queryctrl"
  drv_G_CTRL :: "v4l2_control \<Rightarrow> ioctl_answer \<times> v4l2_control"
  drv_S_CTRL :: "v4l2_control \<Rightarrow> ioctl_answer \<times> v4l2_control"
  drv_S_FMT :: "v4l2_format \<Rightarrow> ioctl_answer \<times> v4l2_format"
  drv_REQBUFS :: "v4l2_requestbuffers \<Rightarrow> ioctl_answer \<times> v4l2_requestbuffers"
  drv_QUERYBUF :: "v4l2_buffer \<Rightarrow> ioctl_answer \<times> v4l2_buffer"
  drv_QBUF :: "v4l2_buffer \<Rightarrow> ioctl_answer \<times> v4l2_buffer"
  drv_DQBUF :: "v4l2_buffer \<Rightarrow> ioctl_answer \<times> v4l2_buffer"
  drv_STREAMON :: "32 word \<Rightarrow> ioctl_answer \<times> 32 word"
  drv_STREAMOFF :: "32 word \<Rightarrow> ioctl_answer \<times> 32 word"
  gralloc_lock :: "camera3_stream_buffer \<Rightarrow> 32 word \<Rightarrow> v4l2_buffer \<Rightarrow> int \<times> v4l2_buffer"
  gralloc_unlock :: "v4l2_buffer \<Rightarrow> int"
  gralloc_unlockAllBuffers :: int
  StreamFormat_of_stream :: "Stream \<Rightarrow> StreamFormat"
  StreamFormat_of_v4l2 :: "v4l2_format \<Rightarrow> StreamFormat"
  StreamFormat_equal :: "StreamFormat \<Rightarrow> StreamFormat \<Rightarrow> bool"
  FillFormatRequest :: "StreamFormat \<Rightarrow> v4l2_format"
  Category :: "StreamFormat \<Rightarrow> FormatCategory"
  uninit_queryctrl :: v4l2_queryctrl
  uninit_control :: v4l2_control
  uninit_max_buffers :: "nat \<Rightarrow> 32 word"
  uninit_newStreams :: "nat \<Rightarrow> nat option"
  isValidReuseStream :: "Stream \<Rightarrow> camera3_stream \<Rightarrow> bool"
  sync_wait :: "int \<Rightarrow> int \<Rightarrow> int"
  isValidRequest :: "CaptureRequest \<Rightarrow> bool"
  connection_status :: int
  GetFormats :: "int \<times> 32 word list"
  GetFormatFrameSizes :: "32 word \<Rightarrow> int \<times> (int \<times> int) list"
  GetFormatFrameDurationRange :: "32 word \<Rightarrow> int \<times> int \<Rightarrow> int \<times> (int \<times> int)"
  V4L2ToHalPixelFormat :: "32 word \<Rightarrow> int"
  HalToV4L2PixelFormat :: "int \<Rightarrow> 32 word"

subsection \<open>The wrapper's state\<close>

text \<open>
  The members of \<open>V4L2Wrapper\<close> (named without the trailing underscore of the source;
  \<open>w_format\<close> is \<open>format_\<close>, \<open>w_max_buffers\<close> is \<open>max_buffers_\<close>), together with
  what the calls leave behind outside the
  object: \<open>errno\<close>, the ioctls issued on the device, in order, and the calls made to
  the gralloc helper.
\<close>

record V4L2Wrapper =
  device_fd :: int
  w_format :: "StreamFormat option"
  w_max_buffers :: "32 word"
  extended_query_supported :: bool
  errno :: int
  ioctls :: "ioctl_request list"
  gralloc_calls :: "gralloc_call list"

text \<open>
  Modelled from the spec: \<open>connected()\<close> is declared in v4l2_wrapper.h, which is not
  under src/. The wrapper is connected while \<open>device_fd\<close> holds an open descriptor
  (\<open>ScopedFd\<close> holds -1 otherwise).
\<close>

definition connected :: "V4L2Wrapper \<Rightarrow> bool" where
  "connected w = (device_fd w \<ge> 0)"

definition Disconnect :: "V4L2Wrapper \<Rightarrow> V4L2Wrapper" where
  "Disconnect w =
     w\<lparr>device_fd := - 1, w_format := None, w_max_buffers := 0,
       gralloc_calls := gralloc_calls w @ [GrallocUnlockAllBuffers]\<rparr>"

definition IoctlLocked ::
  "ioctl_request \<Rightarrow> ('d \<Rightarrow> ioctl_answer \<times> 'd) \<Rightarrow> 'd \<Rightarrow> V4L2Wrapper \<Rightarrow> (int \<times> 'd) \<times> V4L2Wrapper" where
  "IoctlLocked request driver data w =
     (if \<not> connected w then ((- ENODEV, data), w)
      else
        let (answer, data') = driver data
        in ((fst answer, data'),
            w\<lparr>errno := (if fst answer < 0 then snd answer else errno w),
              ioctls := ioctls w @ [request]\<rparr>))"

definition unlockAllBuffers :: "externals \<Rightarrow> V4L2Wrapper \<Rightarrow> int \<times> V4L2Wrapper" where
  "unlockAllBuffers e w =
     (gralloc_unlockAllBuffers e, w\<lparr>gralloc_calls := gralloc_calls w @ [GrallocUnlockAllBuffers]\<rparr>)"

definition StreamOn :: "externals \<Rightarrow> V4L2Wrapper \<Rightarrow> int \<times> V4L2Wrapper" where
  "StreamOn e w =
     (case w_format w of
        None \<Rightarrow> (- EINVAL, w)
      | Some f \<Rightarrow>
          let ((res, type), w1) = IoctlLocked VIDIOC_STREAMON (drv_STREAMON e) (sf_type f) w
          in if res < 0 then (- ENODEV, w1) else (0, w1))"

definition StreamOff :: "externals \<Rightarrow> V4L2Wrapper \<Rightarrow> int \<times> V4L2Wrapper" where
  "StreamOff e w =
     (case w_format w of
        None \<Rightarrow> (- ENODEV, w)
      | Some f \<Rightarrow>
          let ((res, type), w1) = IoctlLocked VIDIOC_STREAMOFF (drv_STREAMOFF e) (sf_type f) w;
              (gralloc_res, w2) = unlockAllBuffers e w1
          in if res < 0 then (- ENODEV, w2)
             else if gralloc_res < 0 then (gralloc_res, w2)
             else (0, w2))"

text \<open>\<open>memset(result, 0, sizeof(*result))\<close>; a name is an array of 32 bytes.\<close>

definition zeroed_query_ext_ctrl :: v4l2_query_ext_ctrl where
  "zeroed_query_ext_ctrl =
     \<lparr>qe_id = 0, qe_type = 0, qe_name = replicate 32 0, qe_minimum = 0, qe_maximum = 0,
      qe_step = 0, qe_default_value = 0, qe_flags = 0, qe_elem_size = 0, qe_elems = 0\<rparr>"

text \<open>QueryControl, "Convert the basic result to the extended result".\<close>

definition basic_to_extended :: "v4l2_queryctrl \<Rightarrow> v4l2_query_ext_ctrl \<Rightarrow> v4l2_query_ext_ctrl" where
  "basic_to_extended query result =
     (let result = result\<lparr>qe_id := qc_id query, qe_type := qc_type query,
                          qe_name := qc_name query, qe_minimum := scast (qc_minimum query)\<rparr>;
          result =
            (if qc_type query = V4L2_CTRL_TYPE_BITMASK
             then result\<lparr>qe_maximum := ucast (qc_maximum query),
                         qe_default_value := ucast (qc_default_value query)\<rparr>
             else result\<lparr>qe_maximum := scast (qc_maximum query),
                         qe_default_value := scast (qc_default_value query)\<rparr>);
          result = result\<lparr>qe_step := ucast (qc_step query), qe_flags := qc_flags query,
                          qe_elems := 1\<rparr>
      in if qe_type result = V4L2_CTRL_TYPE_INTEGER64 then result\<lparr>qe_elem_size := 8\<rparr>
         else if qe_type result = V4L2_CTRL_TYPE_STRING
         then result\<lparr>qe_elem_size := ucast (qe_maximum result + 1)\<rparr>
         else result\<lparr>qe_elem_size := 4\<rparr>)"

text \<open>QueryControl from "fall back to basic control query" on.\<close>

definition QueryControl_basic ::
  "externals \<Rightarrow> 32 word \<Rightarrow> v4l2_query_ext_ctrl \<Rightarrow> V4L2Wrapper
     \<Rightarrow> (int \<times> v4l2_query_ext_ctrl) \<times> V4L2Wrapper" where
  "QueryControl_basic e control_id result w =
     (let query = (uninit_queryctrl e)\<lparr>qc_id := control_id\<rparr>;
          ((res, query), w1) = IoctlLocked VIDIOC_QUERYCTRL (drv_QUERYCTRL e) query w
      in if res \<noteq> 0 then ((- ENODEV, result), w1)
         else ((0, basic_to_extended query result), w1))"

definition QueryControl ::
  "externals \<Rightarrow> 32 word \<Rightarrow> V4L2Wrapper \<Rightarrow> (int \<times> v4l2_query_ext_ctrl) \<times> V4L2Wrapper" where
  "QueryControl e control_id w =
     (let result = zeroed_query_ext_ctrl
      in if extended_query_supported w
         then
           let result = result\<lparr>qe_id := control_id\<rparr>;
               ((res, result), w1) =
                 IoctlLocked VIDIOC_QUERY_EXT_CTRL (drv_QUERY_EXT_CTRL e) result w
           in if errno w1 \<noteq> ENOTTY
              then (if res \<noteq> 0 then ((- ENODEV, result), w1) else ((0, result), w1))
              else QueryControl_basic e control_id result w1
         else QueryControl_basic e control_id result w)"

definition GetControl ::
  "externals \<Rightarrow> 32 word \<Rightarrow> 32 word \<Rightarrow> V4L2Wrapper \<Rightarrow> (int \<times> 32 word) \<times> V4L2Wrapper" where
  "GetControl e control_id value w =
     (let control = (uninit_control e)\<lparr>ctrl_id := control_id\<rparr>;
          ((res, control), w1) = IoctlLocked VIDIOC_G_CTRL (drv_G_CTRL e) control w
      in if res < 0 then ((- ENODEV, value), w1)
         else ((0, ctrl_value control), w1))"

text \<open>\<open>result\<close> is \<open>None\<close> for a null pointer, and holds the pointee otherwise.\<close>

definition SetControl ::
  "externals \<Rightarrow> 32 word \<Rightarrow> 32 word \<Rightarrow> 32 word option \<Rightarrow> V4L2Wrapper
     \<Rightarrow> (int \<times> 32 word option) \<times> V4L2Wrapper" where
  "SetControl e control_id desired result w =
     (let control = \<lparr>ctrl_id = control_id, ctrl_value = desired\<rparr>;
          ((res, control), w1) = IoctlLocked VIDIOC_S_CTRL (drv_S_CTRL e) control w
      in if res < 0 then ((- ENODEV, result), w1)
         else ((0, (case result of None \<Rightarrow> None | Some _ \<Rightarrow> Some (ctrl_value control))), w1))"

definition SetupBuffers :: "externals \<Rightarrow> V4L2Wrapper \<Rightarrow> int \<times> V4L2Wrapper" where
  "SetupBuffers e w =
     (case w_format w of
        None \<Rightarrow> (- ENODEV, w)
      | Some f \<Rightarrow>
          let req_buffers = \<lparr>rb_count = 1, rb_type = sf_type f, rb_memory = V4L2_MEMORY_USERPTR\<rparr>;
              ((res, req_buffers), w1) =
                IoctlLocked VIDIOC_REQBUFS (drv_REQBUFS e) req_buffers w;
              (gralloc_res, w2) = unlockAllBuffers e w1
          in if res < 0 then (- ENODEV, w2)
             else if gralloc_res < 0 then (gralloc_res, w2)
             else
               let w3 = w2\<lparr>w_max_buffers := rb_count req_buffers\<rparr>
               in if w_max_buffers w3 < 1 then (- ENODEV, w3) else (0, w3))"

text \<open>
  \<open>result_max_buffers\<close> is the content of the caller's variable before the call; the
  result carries its content after the call.
\<close>

definition SetFormat ::
  "externals \<Rightarrow> Stream \<Rightarrow> 32 word \<Rightarrow> V4L2Wrapper \<Rightarrow> (int \<times> 32 word) \<times> V4L2Wrapper" where
  "SetFormat e stream result_max_buffers w =
     (if isInputType stream then ((- EINVAL, result_max_buffers), w)
      else
        let desired_format = StreamFormat_of_stream e stream
        in if (case w_format w of None \<Rightarrow> False
               | Some f \<Rightarrow> StreamFormat_equal e desired_format f)
           then ((0, result_max_buffers), w)
           else
             let new_format = FillFormatRequest e desired_format;
                 ((res, new_format), w1) = IoctlLocked VIDIOC_S_FMT (drv_S_FMT e) new_format w
             in if res < 0 then ((- ENODEV, result_max_buffers), w1)
                else if \<not> StreamFormat_equal e desired_format (StreamFormat_of_v4l2 e new_format)
                then ((- EINVAL, result_max_buffers), w1)
                else
                  let w2 = w1\<lparr>w_format := Some (StreamFormat_of_v4l2 e new_format)\<rparr>;
                      (res, w3) = SetupBuffers e w2
                  in if res \<noteq> 0 then ((res, result_max_buffers), w3)
                     else ((0, w_max_buffers w3), w3))"

text \<open>\<open>memset(&device_buffer, 0, sizeof(device_buffer))\<close>.\<close>

definition zeroed_buffer :: v4l2_buffer where
  "zeroed_buffer =
     \<lparr>buf_index = 0, buf_type = 0, buf_memory = 0, buf_userptr = 0, buf_length = 0\<rparr>"

definition EnqueueBuffer ::
  "externals \<Rightarrow> camera3_stream_buffer \<Rightarrow> V4L2Wrapper \<Rightarrow> int \<times> V4L2Wrapper" where
  "EnqueueBuffer e camera_buffer w =
     (case w_format w of
        None \<Rightarrow> (- ENODEV, w)
      | Some f \<Rightarrow>
          let device_buffer = zeroed_buffer\<lparr>buf_type := sf_type f\<rparr>;
              ((res, device_buffer), w1) =
                IoctlLocked VIDIOC_QUERYBUF (drv_QUERYBUF e) device_buffer w
          in if res < 0 then (- ENODEV, w1)
             else
               let device_buffer = device_buffer\<lparr>buf_memory := V4L2_MEMORY_USERPTR, buf_index := 0\<rparr>;
                   (res, device_buffer) = gralloc_lock e camera_buffer (sf_bytes_per_line f) device_buffer;
                   w2 = w1\<lparr>gralloc_calls := gralloc_calls w1 @ [GrallocLock]\<rparr>
               in if res \<noteq> 0 then (res, w2)
                  else
                    let ((res, device_buffer), w3) =
                          IoctlLocked VIDIOC_QBUF (drv_QBUF e) device_buffer w2
                    in if res < 0
                       then (- ENODEV, w3\<lparr>gralloc_calls := gralloc_calls w3 @ [GrallocUnlock]\<rparr>)
                       else (0, w3))"

definition DequeueBuffer ::
  "externals \<Rightarrow> v4l2_buffer \<Rightarrow> V4L2Wrapper \<Rightarrow> (int \<times> v4l2_buffer) \<times> V4L2Wrapper" where
  "DequeueBuffer e buffer w =
     (case w_format w of
        None \<Rightarrow> ((- ENODEV, buffer), w)
      | Some f \<Rightarrow>
          let buffer = zeroed_buffer\<lparr>buf_type := sf_type f, buf_memory := V4L2_MEMORY_USERPTR\<rparr>;
              ((res, buffer), w1) = IoctlLocked VIDIOC_DQBUF (drv_DQBUF e) buffer w
          in if res < 0 then ((- ENODEV, buffer), w1)
             else
               let res = gralloc_unlock e buffer;
                   w2 = w1\<lparr>gralloc_calls := gralloc_calls w1 @ [GrallocUnlock]\<rparr>
               in if res \<noteq> 0 then ((res, buffer), w2) else ((0, buffer), w2))"

section \<open>The camera (camera.cpp, v4l2_camera.cpp)\<close>

subsection \<open>Stream objects\<close>

text \<open>
  The \<open>Stream\<close> objects live in a store: \<open>new\<close> takes the next address,
  \<open>delete\<close> empties the address. Reading through a pointer that holds no object
  is undefined in C++; the operations below then have no result (\<open>None\<close>).
\<close>

type_synonym heap = "Stream option list"

definition heap_lookup :: "heap \<Rightarrow> nat \<Rightarrow> Stream option" where
  "heap_lookup h p = (if p < length h then h ! p else None)"

definition heap_store :: "heap \<Rightarrow> nat \<Rightarrow> Stream \<Rightarrow> heap" where
  "heap_store h p s = h[p := Some s]"

definition heap_new :: "heap \<Rightarrow> Stream \<Rightarrow> nat \<times> heap" where
  "heap_new h s = (length h, h @ [Some s])"

definition heap_delete :: "heap \<Rightarrow> nat \<Rightarrow> heap" where
  "heap_delete h p = h[p := None]"

definition deref :: "heap \<Rightarrow> nat option \<Rightarrow> Stream option" where
  "deref h p = (case p of None \<Rightarrow> None | Some a \<Rightarrow> heap_lookup h a)"

fun deref_all :: "heap \<Rightarrow> nat option list \<Rightarrow> Stream list option" where
  "deref_all h [] = Some []"
| "deref_all h (p # ps) =
     (case deref h p of
        None \<Rightarrow> None
      | Some s \<Rightarrow> (case deref_all h ps of None \<Rightarrow> None | Some ss \<Rightarrow> Some (s # ss)))"

text \<open>
  Modelled from the spec: the constructor \<open>Stream(int id, camera3_stream_t *s)\<close>
  (stream.cpp) is not under src/. Spec section 3: a stream carries the width, height,
  pixel format, rotation and data-space of its configuration; usage flags and max buffer
  count are computed later by \<open>setupStreams\<close>; a new stream is not a reused one.
\<close>

definition new_Stream :: "camera3_stream \<Rightarrow> Stream" where
  "new_Stream s =
     \<lparr>mReuse = False, mType = cs_stream_type s, mWidth = cs_width s, mHeight = cs_height s,
      mFormat = cs_format s, mUsage = 0, mRotation = cs_rotation s,
      mDataSpace = cs_data_space s, mMaxBuffers = 0\<rparr>"

subsection \<open>The camera's state\<close>

text \<open>The members that \<open>V4L2Camera::initCharacteristics\<close> computes and the stream checks read.\<close>

record Characteristics =
  mMaxRawOutputStreams :: int
  mMaxStallingOutputStreams :: int
  mMaxNonStallingOutputStreams :: int
  mMaxInputStreams :: int
  mStreamConfigs :: "int list list"
  mMinFrameDurations :: "int list list"
  mStallDurations :: "int list list"
  mMaxFrameDuration :: int
  mFpsRanges :: "int list list"
  mCharacteristicsInitialized :: bool

text \<open>
  The members of \<open>Camera\<close>, the store of its \<open>Stream\<close> objects, the V4L2 device it
  shares, the calls made on the framework's callback table, the calls of
  \<open>initTemplate\<close>, and the requests sent off to the device.
\<close>

record Camera =
  mId :: int
  mSettingsSet :: bool
  mBusy :: bool
  mStreams :: "nat option list option"
  mNumStreams :: nat
  mTemplates :: "int \<Rightarrow> CameraMetadata option"
  stream_objects :: heap
  characteristics :: Characteristics
  mV4L2Device :: V4L2Wrapper
  callbacks :: "callback list"
  initTemplate_calls :: "int list"
  request_queue :: "CaptureRequest list"

subsection \<open>Camera::configureStreams\<close>

text \<open>"Mark all current streams unused for now".\<close>

fun mark_unused :: "nat option list \<Rightarrow> heap \<Rightarrow> heap option" where
  "mark_unused [] h = Some h"
| "mark_unused (p # ps) h =
     (case p of
        None \<Rightarrow> None
      | Some a \<Rightarrow>
          (case heap_lookup h a of
             None \<Rightarrow> None
           | Some s \<Rightarrow> mark_unused ps (heap_store h a (s\<lparr>mReuse := False\<rparr>))))"

definition mark_current_unused :: "Camera \<Rightarrow> heap option" where
  "mark_current_unused cam =
     (if mNumStreams cam = 0 then Some (stream_objects cam)
      else
        (case mStreams cam of
           None \<Rightarrow> None
         | Some arr \<Rightarrow>
             if mNumStreams cam \<le> length arr
             then mark_unused (take (mNumStreams cam) arr) (stream_objects cam)
             else None))"

definition reuseStream :: "externals \<Rightarrow> camera3_stream \<Rightarrow> heap \<Rightarrow> (nat option \<times> heap) option" where
  "reuseStream e astream h =
     (case cs_priv astream of
        None \<Rightarrow> None
      | Some priv \<Rightarrow>
          (case heap_lookup h priv of
             None \<Rightarrow> None
           | Some s \<Rightarrow>
               if \<not> isValidReuseStream e s astream then Some (None, h)
               else Some (Some priv, heap_store h priv (s\<lparr>mReuse := True\<rparr>))))"

text \<open>
  "Fill new stream array with reused streams and new streams", from index \<open>i\<close> on.
  The result tells whether every stream was processed (\<open>False\<close>: the loop left for
  \<open>err_out\<close>), and gives the streams of the configuration, the new array and the store.
\<close>

fun fill_streams ::
  "externals \<Rightarrow> nat \<Rightarrow> camera3_stream list \<Rightarrow> nat option list \<Rightarrow> heap
     \<Rightarrow> (bool \<times> camera3_stream list \<times> nat option list \<times> heap) option" where
  "fill_streams e i [] newStreams h = Some (True, [], newStreams, h)"
| "fill_streams e i (astream # rest) newStreams h =
     (case (if cs_max_buffers astream > 0 then reuseStream e astream h
            else (let (a, h') = heap_new h (new_Stream astream) in Some (Some a, h'))) of
        None \<Rightarrow> None
      | Some (p, h1) \<Rightarrow>
          let newStreams = newStreams[i := p]
          in (case p of
                None \<Rightarrow> Some (False, astream # rest, newStreams, h1)
              | Some a \<Rightarrow>
                  (case fill_streams e (Suc i) rest newStreams h1 of
                     None \<Rightarrow> None
                   | Some (ok, rest', newStreams', h2) \<Rightarrow>
                       Some (ok, astream\<lparr>cs_priv := p\<rparr> # rest', newStreams', h2))))"

text \<open>Camera::destroyStreams: "Only destroy streams that weren't reused".\<close>

fun destroy_each :: "nat option list \<Rightarrow> heap \<Rightarrow> heap option" where
  "destroy_each [] h = Some h"
| "destroy_each (p # ps) h =
     (case p of
        None \<Rightarrow> destroy_each ps h
      | Some a \<Rightarrow>
          (case heap_lookup h a of
             None \<Rightarrow> None
           | Some s \<Rightarrow>
               if \<not> mReuse s then destroy_each ps (heap_delete h a) else destroy_each ps h))"

definition destroyStreams :: "nat option list option \<Rightarrow> nat \<Rightarrow> heap \<Rightarrow> heap option" where
  "destroyStreams streams count h =
     (case streams of
        None \<Rightarrow> Some h
      | Some arr \<Rightarrow> if count \<le> length arr then destroy_each (take count arr) h else None)"

text \<open>V4L2Camera::isSupportedStreamSet, "Count the number of streams of each type".\<close>

fun count_stream_types ::
  "externals \<Rightarrow> Stream list \<Rightarrow> int \<times> int \<times> int \<times> int \<Rightarrow> (int \<times> int \<times> int \<times> int) option" where
  "count_stream_types e [] counts = Some counts"
| "count_stream_types e (stream # rest) (num_input, num_raw, num_stalling, num_non_stalling) =
     (let num_input = (if isInputType stream then num_input + 1 else num_input)
      in if isOutputType stream
         then (case Category e (StreamFormat_of_stream e stream) of
                 kFormatCategoryRaw \<Rightarrow>
                   count_stream_types e rest (num_input, num_raw + 1, num_stalling + 1, num_non_stalling)
               | kFormatCategoryStalling \<Rightarrow>
                   count_stream_types e rest (num_input, num_raw, num_stalling + 1, num_non_stalling)
               | kFormatCategoryNonStalling \<Rightarrow>
                   count_stream_types e rest (num_input, num_raw, num_stalling, num_non_stalling + 1)
               | kFormatCategoryUnknown \<Rightarrow> None)
         else count_stream_types e rest (num_input, num_raw, num_stalling, num_non_stalling))"

definition isSupportedStreamSet ::
  "externals \<Rightarrow> Characteristics \<Rightarrow> Stream list \<Rightarrow> 32 word \<Rightarrow> bool" where
  "isSupportedStreamSet e c streams mode =
     (if mode \<noteq> CAMERA3_STREAM_CONFIGURATION_NORMAL_MODE then False
      else if length streams < 1 then False
      else
        (case count_stream_types e streams (0, 0, 0, 0) of
           None \<Rightarrow> False
         | Some (num_input, num_raw, num_stalling, num_non_stalling) \<Rightarrow>
             if num_input > mMaxInputStreams c \<or> num_raw > mMaxRawOutputStreams c
                \<or> num_stalling > mMaxStallingOutputStreams c
                \<or> num_non_stalling > mMaxNonStallingOutputStreams c
             then False
             else
               (case streams of
                  [] \<Rightarrow> False
                | s0 # rest \<Rightarrow>
                    list_all (\<lambda>stream. \<not> (mFormat stream \<noteq> mFormat s0
                                           \<or> mWidth stream \<noteq> mWidth s0
                                           \<or> mHeight stream \<noteq> mHeight s0)) rest)))"

text \<open>
  Camera::isValidStreamSet. Its first loop reads every stream of the array, so the
  objects are fetched from the store first; there is no result when a pointer of the
  array holds no object.
\<close>

definition isValidStreamSet ::
  "externals \<Rightarrow> Characteristics \<Rightarrow> nat option list option \<Rightarrow> nat \<Rightarrow> 32 word \<Rightarrow> heap \<Rightarrow> bool option" where
  "isValidStreamSet e c streams count mode h =
     (case streams of
        None \<Rightarrow> Some False
      | Some arr \<Rightarrow>
          if count = 0 then Some False
          else if length arr < count then None
          else
            (case deref_all h (take count arr) of
               None \<Rightarrow> None
             | Some ss \<Rightarrow>
                 let inputs = length (filter isInputType ss);
                     outputs = length (filter isOutputType ss)
                 in if outputs < 1 then Some False
                    else if inputs > 1 then Some False
                    else Some (isSupportedStreamSet e c ss mode)))"

text \<open>V4L2Camera::setupStream; the result carries the stream and \<open>*max_buffers\<close> after the call.\<close>

definition setupStream ::
  "externals \<Rightarrow> Stream \<Rightarrow> 32 word \<Rightarrow> V4L2Wrapper \<Rightarrow> (int \<times> Stream \<times> 32 word) \<times> V4L2Wrapper" where
  "setupStream e stream max_buffers w =
     (if mRotation stream \<noteq> CAMERA3_STREAM_ROTATION_0 then ((- EINVAL, stream, max_buffers), w)
      else
        let stream = stream\<lparr>mDataSpace := HAL_DATASPACE_V0_JFIF\<rparr>;
            ((res, max_buffers), w1) = SetFormat e stream max_buffers w
        in if res \<noteq> 0 then ((res, stream, max_buffers), w1)
           else if max_buffers < 1 then ((- ENODEV, stream, max_buffers), w1)
           else ((0, stream, max_buffers), w1))"

text \<open>Camera::setupStreams, from index \<open>i\<close> on.\<close>

fun setupStreams ::
  "externals \<Rightarrow> nat \<Rightarrow> nat option list \<Rightarrow> heap \<Rightarrow> V4L2Wrapper \<Rightarrow> (int \<times> heap \<times> V4L2Wrapper) option" where
  "setupStreams e i [] h w = Some (0, h, w)"
| "setupStreams e i (p # ps) h w =
     (case p of
        None \<Rightarrow> None
      | Some a \<Rightarrow>
          (case heap_lookup h a of
             None \<Rightarrow> None
           | Some s \<Rightarrow>
               let usage = 0;
                   usage = (if isOutputType s then usage OR GRALLOC_USAGE_SW_WRITE_OFTEN else usage);
                   usage = (if isInputType s then usage OR GRALLOC_USAGE_SW_READ_OFTEN else usage);
                   s = s\<lparr>mUsage := usage\<rparr>;
                   ((res, s, max_buffers), w1) = setupStream e s (uninit_max_buffers e i) w
               in if res \<noteq> 0 then Some (res, heap_store h a s, w1)
                  else setupStreams e (Suc i) ps (heap_store h a (s\<lparr>mMaxBuffers := max_buffers\<rparr>)) w1))"

text \<open>The label \<open>err_out\<close> of configureStreams.\<close>

definition err_out ::
  "int \<Rightarrow> nat option list \<Rightarrow> nat \<Rightarrow> Camera \<Rightarrow> camera3_stream_configuration
     \<Rightarrow> (int \<times> Camera \<times> camera3_stream_configuration option) option" where
  "err_out res newStreams num_streams cam cfg =
     (case destroyStreams (Some newStreams) num_streams (stream_objects cam) of
        None \<Rightarrow> None
      | Some h \<Rightarrow> Some ((if res = 0 then - EINVAL else res), cam\<lparr>stream_objects := h\<rparr>, Some cfg))"

text \<open>
  Camera::configureStreams. The result is the return value, the camera and the
  configuration after the call (the call writes \<open>priv\<close> of its streams).
\<close>

definition configureStreams ::
  "externals \<Rightarrow> camera3_stream_configuration option \<Rightarrow> Camera
     \<Rightarrow> (int \<times> Camera \<times> camera3_stream_configuration option) option" where
  "configureStreams e stream_config cam0 =
     (let cam = cam0\<lparr>mSettingsSet := False\<rparr>
      in case stream_config of
           None \<Rightarrow> Some (- EINVAL, cam, None)
         | Some cfg \<Rightarrow>
             if length (cfg_streams cfg) = 0 then Some (- EINVAL, cam, Some cfg)
             else
               let num_streams = length (cfg_streams cfg);
                   newStreams = map (uninit_newStreams e) [0..<num_streams]
               in (case mark_current_unused cam of
                     None \<Rightarrow> None
                   | Some h0 \<Rightarrow>
                       (case fill_streams e 0 (cfg_streams cfg) newStreams h0 of
                          None \<Rightarrow> None
                        | Some (ok, astreams, newStreams, h1) \<Rightarrow>
                            let cfg = cfg\<lparr>cfg_streams := astreams\<rparr>;
                                cam = cam\<lparr>stream_objects := h1\<rparr>
                            in if \<not> ok then err_out 0 newStreams num_streams cam cfg
                               else
                                 (case isValidStreamSet e (characteristics cam) (Some newStreams)
                                         num_streams (cfg_operation_mode cfg) h1 of
                                    None \<Rightarrow> None
                                  | Some valid \<Rightarrow>
                                      if \<not> valid then err_out 0 newStreams num_streams cam cfg
                                      else
                                        (case setupStreams e 0 (take num_streams newStreams) h1
                                                (mV4L2Device cam) of
                                           None \<Rightarrow> None
                                         | Some (res, h2, w2) \<Rightarrow>
                                             let cam = cam\<lparr>stream_objects := h2, mV4L2Device := w2\<rparr>
                                             in if res \<noteq> 0
                                                then err_out res newStreams num_streams cam cfg
                                                else
                                                  (case destroyStreams (mStreams cam) (mNumStreams cam) h2 of
                                                     None \<Rightarrow> None
                                                   | Some h3 \<Rightarrow>
                                                       Some (0,
                                                             cam\<lparr>stream_objects := h3,
                                                                 mStreams := Some newStreams,
                                                                 mNumStreams := num_streams\<rparr>,
                                                             Some cfg)))))))"

subsection \<open>Capture requests and their completion\<close>

text \<open>
  Modelled from the spec: \<open>SingleTagValue\<close> (metadata/metadata_common.h) is not under
  src/. Spec sections 4.1 and 4.5: a value is read from the entry of a tag; the absence
  of the tag is an error, and so is a number of values other than the expected one.
  \<open>val\<close> is the content of the caller's variable before the call.
\<close>

definition SingleTagValue :: "'v metadata \<Rightarrow> int \<Rightarrow> 'v \<Rightarrow> int \<times> 'v" where
  "SingleTagValue md tag val =
     (case map_of md tag of
        None \<Rightarrow> (- ENOENT, val)
      | Some vs \<Rightarrow> (case vs of [v] \<Rightarrow> (0, v) | _ \<Rightarrow> (- EINVAL, val)))"

definition preprocessCaptureBuffer ::
  "externals \<Rightarrow> camera3_stream_buffer \<Rightarrow> int \<times> camera3_stream_buffer" where
  "preprocessCaptureBuffer e buffer =
     (let res = (if sb_acquire_fence buffer \<noteq> - 1
                 then sync_wait e (sb_acquire_fence buffer) CAMERA_SYNC_TIMEOUT else 0)
      in if sb_acquire_fence buffer \<noteq> - 1 \<and> res = - ETIME then (res, buffer)
         else if sb_acquire_fence buffer \<noteq> - 1 \<and> res \<noteq> 0 then (res, buffer)
         else (0, buffer\<lparr>sb_acquire_fence := - 1, sb_release_fence := - 1,
                         sb_status := CAMERA3_BUFFER_STATUS_OK\<rparr>))"

text \<open>processCaptureRequest, "Pre-process output buffers".\<close>

fun preprocess_buffers ::
  "externals \<Rightarrow> camera3_stream_buffer list \<Rightarrow> int \<times> camera3_stream_buffer list" where
  "preprocess_buffers e [] = (0, [])"
| "preprocess_buffers e (output_buffer # rest) =
     (let (res, output_buffer) = preprocessCaptureBuffer e output_buffer
      in if res \<noteq> 0 then (- ENODEV, output_buffer # rest)
         else (let (res, rest) = preprocess_buffers e rest in (res, output_buffer # rest)))"

text \<open>
  Modelled from the spec: \<open>V4L2Camera::enqueueRequest\<close> is declared in v4l2_camera.h;
  its body is not under src/. Spec section 4.5: process_capture_request "enqueues the
  request internally; returns immediately".
\<close>

definition enqueueRequest :: "CaptureRequest \<Rightarrow> Camera \<Rightarrow> Camera" where
  "enqueueRequest request cam = cam\<lparr>request_queue := request_queue cam @ [request]\<rparr>"

text \<open>
  Camera::processCaptureRequest; \<open>temp_request\<close> is \<open>None\<close> for a null pointer. The
  persistent copy of the request has the fields of the request.
\<close>

definition processCaptureRequest ::
  "externals \<Rightarrow> CaptureRequest option \<Rightarrow> Camera \<Rightarrow> int \<times> Camera" where
  "processCaptureRequest e temp_request cam =
     (case temp_request of
        None \<Rightarrow> (- EINVAL, cam)
      | Some request \<Rightarrow>
          if cr_settings request = [] \<and> \<not> mSettingsSet cam then (- EINVAL, cam)
          else if \<not> isValidRequest e request then (- EINVAL, cam)
          else
            let cam = cam\<lparr>mSettingsSet := True\<rparr>
            in if length (cr_output_buffers request) \<le> 0 then (- EINVAL, cam)
               else
                 let (res, buffers) = preprocess_buffers e (cr_output_buffers request);
                     request = request\<lparr>cr_output_buffers := buffers\<rparr>
                 in if res \<noteq> 0 then (res, cam)
                    else (0, enqueueRequest request cam))"

definition notifyShutter :: "32 word \<Rightarrow> 64 word \<Rightarrow> Camera \<Rightarrow> Camera" where
  "notifyShutter frame_number timestamp cam =
     cam\<lparr>callbacks := callbacks cam @ [notify (CAMERA3_MSG_SHUTTER frame_number timestamp)]\<rparr>"

definition sendResult :: "CaptureRequest \<Rightarrow> Camera \<Rightarrow> Camera" where
  "sendResult request cam =
     (let result = \<lparr>res_frame_number = cr_frame_number request,
                    res_result = cr_settings request,
                    res_num_output_buffers = length (cr_output_buffers request),
                    res_output_buffers = cr_output_buffers request,
                    res_input_buffer = cr_input_buffer request,
                    res_partial_result = 1\<rparr>
      in cam\<lparr>callbacks := callbacks cam @ [process_capture_result result]\<rparr>)"

definition completeRequestWithError :: "CaptureRequest \<Rightarrow> Camera \<Rightarrow> Camera" where
  "completeRequestWithError request cam =
     (let message = CAMERA3_MSG_ERROR (cr_frame_number request) None CAMERA3_MSG_ERROR_REQUEST;
          cam = cam\<lparr>callbacks := callbacks cam @ [notify message]\<rparr>
      in sendResult request cam)"

definition completeRequest :: "CaptureRequest \<Rightarrow> int \<Rightarrow> Camera \<Rightarrow> Camera" where
  "completeRequest request err cam =
     (if err \<noteq> 0 then completeRequestWithError request cam
      else
        let (res, timestamp) = SingleTagValue (cr_settings request) ANDROID_SENSOR_TIMESTAMP 0
        in if res \<noteq> 0 then completeRequestWithError request cam
           else sendResult request (notifyShutter (cr_frame_number request) timestamp cam))"

subsection \<open>Request templates\<close>

definition isValidTemplateType :: "int \<Rightarrow> bool" where
  "isValidTemplateType type = (type > 0 \<and> type < CAMERA3_TEMPLATE_COUNT)"

text \<open>
  Camera::constructDefaultRequestSettings. \<open>initTemplate\<close> is the virtual method of
  the camera at hand: it answers with its return value and the block it filled. The
  result is the block returned (\<open>None\<close> for a null pointer) and the camera.
\<close>

definition constructDefaultRequestSettings ::
  "(int \<Rightarrow> CameraMetadata \<Rightarrow> int \<times> CameraMetadata) \<Rightarrow> int \<Rightarrow> Camera
     \<Rightarrow> CameraMetadata option \<times> Camera" where
  "constructDefaultRequestSettings initTemplate type cam =
     (if \<not> isValidTemplateType type then (None, cam)
      else
        (case mTemplates cam type of
           Some t \<Rightarrow> (Some t, cam)
         | None \<Rightarrow>
             let (res, new_template) = initTemplate type [];
                 cam = cam\<lparr>initTemplate_calls := initTemplate_calls cam @ [type]\<rparr>
             in if res \<noteq> 0 then (None, cam)
                else (Some new_template, cam\<lparr>mTemplates := (mTemplates cam)(type := Some new_template)\<rparr>)))"

text \<open>
  V4L2Camera::initTemplates, the \<open>switch\<close> of its loop over the template ids: the
  capture intent, the auto-focus mode and the FPS range of a template, or nothing for an
  id that is skipped ("Unsupported/unrecognized. Don't add this template; skip it").
\<close>

definition ANDROID_CONTROL_AE_TARGET_FPS_RANGE :: int where
  "ANDROID_CONTROL_AE_TARGET_FPS_RANGE = 65541"
definition ANDROID_CONTROL_AF_MODE :: int where "ANDROID_CONTROL_AF_MODE = 65543"
definition ANDROID_CONTROL_CAPTURE_INTENT :: int where "ANDROID_CONTROL_CAPTURE_INTENT = 65549"
definition ANDROID_CONTROL_CAPTURE_INTENT_PREVIEW :: "8 word" where
  "ANDROID_CONTROL_CAPTURE_INTENT_PREVIEW = 1"
definition ANDROID_CONTROL_CAPTURE_INTENT_STILL_CAPTURE :: "8 word" where
  "ANDROID_CONTROL_CAPTURE_INTENT_STILL_CAPTURE = 2"
definition ANDROID_CONTROL_CAPTURE_INTENT_VIDEO_RECORD :: "8 word" where
  "ANDROID_CONTROL_CAPTURE_INTENT_VIDEO_RECORD = 3"
definition ANDROID_CONTROL_CAPTURE_INTENT_VIDEO_SNAPSHOT :: "8 word" where
  "ANDROID_CONTROL_CAPTURE_INTENT_VIDEO_SNAPSHOT = 4"

record template_choices =
  still_af_mode :: "8 word"
  video_af_mode :: "8 word"
  flat_fps_range :: "int \<times> int"
  variable_fps_range :: "int \<times> int"

definition template_overlay ::
  "template_choices \<Rightarrow> int \<Rightarrow> (8 word \<times> 8 word \<times> (int \<times> int)) option" where
  "template_overlay t template_id =
     (if template_id = CAMERA3_TEMPLATE_PREVIEW
      then Some (ANDROID_CONTROL_CAPTURE_INTENT_PREVIEW, still_af_mode t, flat_fps_range t)
      else if template_id = CAMERA3_TEMPLATE_STILL_CAPTURE
      then Some (ANDROID_CONTROL_CAPTURE_INTENT_STILL_CAPTURE, still_af_mode t, variable_fps_range t)
      else if template_id = CAMERA3_TEMPLATE_VIDEO_RECORD
      then Some (ANDROID_CONTROL_CAPTURE_INTENT_VIDEO_RECORD, video_af_mode t, flat_fps_range t)
      else if template_id = CAMERA3_TEMPLATE_VIDEO_SNAPSHOT
      then Some (ANDROID_CONTROL_CAPTURE_INTENT_VIDEO_SNAPSHOT, video_af_mode t, flat_fps_range t)
      else None)"

text \<open>
  \<open>CameraMetadata::update\<close> replaces the entry of a tag or adds one. In initTemplates,
  "Copy our base metadata and add the new items": the three entries of a template.
\<close>

definition add_template_items ::
  "CameraMetadata \<Rightarrow> 8 word \<times> 8 word \<times> (int \<times> int) \<Rightarrow> CameraMetadata" where
  "add_template_items base_metadata items =
     (case items of
        (intent, af_mode, fps_range) \<Rightarrow>
          let template_metadata = base_metadata;
              template_metadata =
                AList.update ANDROID_CONTROL_CAPTURE_INTENT [ucast intent] template_metadata;
              template_metadata =
                AList.update ANDROID_CONTROL_AE_TARGET_FPS_RANGE
                  [word_of_int (fst fps_range), word_of_int (snd fps_range)] template_metadata
          in AList.update ANDROID_CONTROL_AF_MODE [ucast af_mode] template_metadata)"

text \<open>
  Modelled from the spec: \<open>V4L2Camera::initTemplate\<close> is declared in v4l2_camera.h;
  its body is not under src/. Spec section 4.4: a base metadata block is initialized
  with defaults, a per-template overlay sets the capture intent, the target FPS range
  and the auto-focus mode; unsupported template ids (ZERO_SHUTTER_LAG and MANUAL) are
  omitted. Building the base block can fail (characteristics that cannot be read, a
  default that is not available): \<open>base_result\<close> is its return value.
\<close>

record template_source =
  base_result :: int
  base_metadata :: CameraMetadata
  choices :: template_choices

definition initTemplate :: "template_source \<Rightarrow> int \<Rightarrow> CameraMetadata \<Rightarrow> int \<times> CameraMetadata" where
  "initTemplate ts type out =
     (if base_result ts \<noteq> 0 then (base_result ts, out)
      else
        (case template_overlay (choices ts) type of
           None \<Rightarrow> (- EINVAL, out)
         | Some items \<Rightarrow> (0, add_template_items (base_metadata ts) items)))"

subsection \<open>V4L2Camera::initCharacteristics\<close>

text \<open>A \<open>std::set\<close> of integers, as the list of its elements in ascending order.\<close>

definition set_insert :: "int \<Rightarrow> int list \<Rightarrow> int list" where
  "set_insert x xs = (if x \<in> set xs then xs else insort x xs)"

fun hal_formats_of :: "externals \<Rightarrow> 32 word list \<Rightarrow> int list \<Rightarrow> int list" where
  "hal_formats_of e [] hal_formats = hal_formats"
| "hal_formats_of e (v4l2_format # rest) hal_formats =
     (let hal_format = V4L2ToHalPixelFormat e v4l2_format
      in if hal_format < 0 then hal_formats_of e rest hal_formats
         else hal_formats_of e rest (set_insert hal_format hal_formats))"

text \<open>
  The body of the loop over the frame sizes of a format, once the duration range of the
  frame size is known: the members written and the local \<open>min_yuv_frame_duration\<close>.
\<close>

definition note_frame_size ::
  "int \<Rightarrow> int \<times> int \<Rightarrow> int \<times> int \<Rightarrow> Characteristics \<times> int \<Rightarrow> Characteristics \<times> int" where
  "note_frame_size hal_format frame_size duration_range acc =
     (case acc of
        (c, min_yuv_frame_duration) \<Rightarrow>
          let min_frame_duration = fst duration_range;
              max_frame_duration = snd duration_range;
              c = c\<lparr>mMinFrameDurations := mMinFrameDurations c @
                       [[hal_format, fst frame_size, snd frame_size, min_frame_duration]]\<rparr>;
              c = (if max_frame_duration < mMaxFrameDuration c
                   then c\<lparr>mMaxFrameDuration := max_frame_duration\<rparr> else c);
              min_yuv_frame_duration =
                (if hal_format = HAL_PIXEL_FORMAT_YCbCr_420_888
                    \<and> min_frame_duration < min_yuv_frame_duration
                 then min_frame_duration else min_yuv_frame_duration);
              stall_duration = (if hal_format = HAL_PIXEL_FORMAT_BLOB then 1000000000 else 0);
              c = c\<lparr>mStallDurations := mStallDurations c @
                       [[hal_format, fst frame_size, snd frame_size, stall_duration]]\<rparr>
          in (c, min_yuv_frame_duration))"

text \<open>
  The loop over the frame sizes of a format. The first component of the result is the
  error the loop returned with, or 0.
\<close>

fun frame_sizes_loop ::
  "externals \<Rightarrow> int \<Rightarrow> 32 word \<Rightarrow> (int \<times> int) list \<Rightarrow> Characteristics \<times> int
     \<Rightarrow> int \<times> Characteristics \<times> int" where
  "frame_sizes_loop e hal_format v4l2_format [] (c, min_yuv_frame_duration) =
     (0, c, min_yuv_frame_duration)"
| "frame_sizes_loop e hal_format v4l2_format (frame_size # rest) (c, min_yuv_frame_duration) =
     (let c = c\<lparr>mStreamConfigs := mStreamConfigs c @
                   [[hal_format, fst frame_size, snd frame_size,
                     ANDROID_SCALER_AVAILABLE_STREAM_CONFIGURATIONS_OUTPUT]]\<rparr>;
          (res, duration_range) = GetFormatFrameDurationRange e v4l2_format frame_size
      in if res \<noteq> 0 then (res, c, min_yuv_frame_duration)
         else frame_sizes_loop e hal_format v4l2_format rest
                (note_frame_size hal_format frame_size duration_range (c, min_yuv_frame_duration)))"

text \<open>The loop over the HAL formats.\<close>

fun hal_formats_loop ::
  "externals \<Rightarrow> int list \<Rightarrow> Characteristics \<times> int \<Rightarrow> int \<times> Characteristics \<times> int" where
  "hal_formats_loop e [] (c, min_yuv_frame_duration) = (0, c, min_yuv_frame_duration)"
| "hal_formats_loop e (hal_format # rest) (c, min_yuv_frame_duration) =
     (let v4l2_format = HalToV4L2PixelFormat e hal_format
      in if v4l2_format = 0 then (- ENODEV, c, min_yuv_frame_duration)
         else
           let (res, frame_sizes) = GetFormatFrameSizes e v4l2_format
           in if res \<noteq> 0 then (res, c, min_yuv_frame_duration)
              else
                (case frame_sizes_loop e hal_format v4l2_format frame_sizes
                        (c, min_yuv_frame_duration) of
                   (res, c, min_yuv_frame_duration) \<Rightarrow>
                     if res \<noteq> 0 then (res, c, min_yuv_frame_duration)
                     else hal_formats_loop e rest (c, min_yuv_frame_duration)))"

text \<open>
  V4L2Camera::initCharacteristics, on the members declared in \<open>Characteristics\<close>. (The
  physical constants and the lists of modes that the function also writes are read
  nowhere in it.) The frame durations are 64-bit integers, the divisions are those of
  C++: they truncate, and a division by zero is undefined (no result). Each quotient is
  at most 1000000000 in absolute value and fits the 32-bit variable it is stored in.
\<close>

definition initCharacteristics :: "externals \<Rightarrow> Characteristics \<Rightarrow> (int \<times> Characteristics) option" where
  "initCharacteristics e c0 =
     (let c = c0\<lparr>mMaxRawOutputStreams := 0, mMaxStallingOutputStreams := 1,
                 mMaxNonStallingOutputStreams := 2, mMaxInputStreams := 0\<rparr>
      in if connection_status e \<noteq> 0 then Some (connection_status e, c)
         else
           let (res, v4l2_formats) = GetFormats e
           in if res \<noteq> 0 then Some (res, c)
              else
                let hal_formats = hal_formats_of e v4l2_formats [];
                    hal_formats = set_insert HAL_PIXEL_FORMAT_IMPLEMENTATION_DEFINED hal_formats
                in if HAL_PIXEL_FORMAT_YCbCr_420_888 \<notin> set hal_formats then Some (- ENODEV, c)
                   else if HAL_PIXEL_FORMAT_BLOB \<notin> set hal_formats then Some (- ENODEV, c)
                   else
                     (case hal_formats_loop e hal_formats
                             (c\<lparr>mMaxFrameDuration := INT64_MAX\<rparr>, INT64_MAX) of
                        (res, c, min_yuv_frame_duration) \<Rightarrow>
                          if res \<noteq> 0 then Some (res, c)
                          else if mMaxFrameDuration c = 0 then None
                          else
                            let min_yuv_fps = 1000000000 sdiv mMaxFrameDuration c
                            in if min_yuv_fps > 15 then Some (- ENODEV, c)
                               else if min_yuv_frame_duration = 0 then None
                               else
                                 let max_yuv_fps = 1000000000 sdiv min_yuv_frame_duration;
                                     c = c\<lparr>mFpsRanges := mFpsRanges c @ [[min_yuv_fps, max_yuv_fps]]\<rparr>;
                                     c = c\<lparr>mFpsRanges := mFpsRanges c @ [[max_yuv_fps, max_yuv_fps]]\<rparr>;
                                     c = (if max_yuv_fps > 30
                                          then c\<lparr>mFpsRanges := mFpsRanges c @ [[30, 30]]\<rparr> else c)
                                 in Some (0, c\<lparr>mCharacteristicsInitialized := True\<rparr>)))"

section \<open>Metadata components\<close>

text \<open>
  Modelled from the spec: class \<open>MenuControlOptions\<close> (metadata/menu_control_options.h)
  is not under src/; only its test (menu_control_options_test.cpp) is. Spec section
  4.1: a menu control is an explicit list of acceptable values; "its
  default-for-template is implementation-defined per template id; when the option set is
  empty, every template returns NoDevice". The implementation's choice is the parameter
  \<open>choice\<close>: the index, for each template id, of the option it takes. \<open>default_value\<close>
  is the content of the caller's variable before the call.
\<close>

definition DefaultValueForTemplate :: "(int \<Rightarrow> nat) \<Rightarrow> 'v list \<Rightarrow> int \<Rightarrow> 'v \<Rightarrow> int \<times> 'v" where
  "DefaultValueForTemplate choice options template_type default_value =
     (if options = [] then (- ENODEV, default_value)
      else (0, options ! (choice template_type mod length options)))"

definition MenuIsSupported :: "'v list \<Rightarrow> 'v \<Rightarrow> bool" where
  "MenuIsSupported options v = (v \<in> set options)"

text \<open>
  Modelled from the spec: class \<open>Control\<close> (metadata/control.h) is not under src/;
  only its test (control_test.cpp) is. A control has a delegate with a tag, which gets
  and sets the value, and may have options, which tell the supported values. Spec
  section 4.1: supports_request_values "returns true iff the request's values for this
  component's control tags are all within the supported option set, and the value-count
  matches the expected arity (typically 1). Missing tags are treated as no request";
  set_request_values "validates via supports_request_values then writes through. Fails
  with InvalidArgument if unsupported", and with the error of the write when the write
  fails (the test SetRequestSettingFail expects the delegate's own code). The second
  component of the result lists the calls of the delegate's \<open>SetValue\<close>.
\<close>

record 'v Control =
  delegate_tag :: int
  delegate_SetValue :: "'v \<Rightarrow> int"
  options_IsSupported :: "('v \<Rightarrow> bool) option"

definition SupportsRequestValues :: "'v Control \<Rightarrow> 'v metadata \<Rightarrow> bool" where
  "SupportsRequestValues control md =
     (case map_of md (delegate_tag control) of
        None \<Rightarrow> True
      | Some vs \<Rightarrow>
          (case vs of
             [v] \<Rightarrow> (case options_IsSupported control of None \<Rightarrow> True | Some supported \<Rightarrow> supported v)
           | _ \<Rightarrow> False))"

definition SetRequestValues :: "'v Control \<Rightarrow> 'v metadata \<Rightarrow> int \<times> 'v list" where
  "SetRequestValues control md =
     (if \<not> SupportsRequestValues control md then (- EINVAL, [])
      else
        (case map_of md (delegate_tag control) of
           None \<Rightarrow> (0, [])
         | Some vs \<Rightarrow>
             (case vs of
                [v] \<Rightarrow> (delegate_SetValue control v, [v])
              | _ \<Rightarrow> (- EINVAL, []))))"

section \<open>A sample device\<close>

text \<open>
  An instance of the parameters of the model, used to evaluate it: a driver that
  accepts every request, a camera with YUV420 and JPEG, the members of
  \<open>StreamFormat\<close> on type, pixel format, width and height.
\<close>

definition V4L2_PIX_FMT_YUV420 :: "32 word" where "V4L2_PIX_FMT_YUV420 = 0x32315559"
definition V4L2_PIX_FMT_JPEG :: "32 word" where "V4L2_PIX_FMT_JPEG = 0x4745504A"
definition V4L2_BUF_TYPE_VIDEO_CAPTURE :: "32 word" where "V4L2_BUF_TYPE_VIDEO_CAPTURE = 1"

definition sample_HalToV4L2PixelFormat :: "int \<Rightarrow> 32 word" where
  "sample_HalToV4L2PixelFormat hal_format =
     (if hal_format = HAL_PIXEL_FORMAT_YCbCr_420_888
         \<or> hal_format = HAL_PIXEL_FORMAT_IMPLEMENTATION_DEFINED then V4L2_PIX_FMT_YUV420
      else if hal_format = HAL_PIXEL_FORMAT_BLOB then V4L2_PIX_FMT_JPEG
      else 0)"

definition sample_V4L2ToHalPixelFormat :: "32 word \<Rightarrow> int" where
  "sample_V4L2ToHalPixelFormat v4l2_format =
     (if v4l2_format = V4L2_PIX_FMT_YUV420 then HAL_PIXEL_FORMAT_YCbCr_420_888
      else if v4l2_format = V4L2_PIX_FMT_JPEG then HAL_PIXEL_FORMAT_BLOB
      else - 1)"

definition sample_StreamFormat_of_stream :: "Stream \<Rightarrow> StreamFormat" where
  "sample_StreamFormat_of_stream s =
     \<lparr>sf_type = V4L2_BUF_TYPE_VIDEO_CAPTURE,
      sf_v4l2_pixel_format = sample_HalToV4L2PixelFormat (mFormat s),
      sf_width = mWidth s, sf_height = mHeight s, sf_bytes_per_line = 0\<rparr>"

definition sample_StreamFormat_of_v4l2 :: "v4l2_format \<Rightarrow> StreamFormat" where
  "sample_StreamFormat_of_v4l2 f =
     \<lparr>sf_type = fmt_type f, sf_v4l2_pixel_format = pix_pixelformat f,
      sf_width = pix_width f, sf_height = pix_height f,
      sf_bytes_per_line = pix_bytesperline f\<rparr>"

definition sample_StreamFormat_equal :: "StreamFormat \<Rightarrow> StreamFormat \<Rightarrow> bool" where
  "sample_StreamFormat_equal a b =
     (sf_type a = sf_type b \<and> sf_v4l2_pixel_format a = sf_v4l2_pixel_format b
      \<and> sf_width a = sf_width b \<and> sf_height a = sf_height b)"

definition sample_FillFormatRequest :: "StreamFormat \<Rightarrow> v4l2_format" where
  "sample_FillFormatRequest f =
     \<lparr>fmt_type = sf_type f, pix_pixelformat = sf_v4l2_pixel_format f, pix_width = sf_width f,
      pix_height = sf_height f, pix_bytesperline = 0, pix_sizeimage = 0\<rparr>"

definition sample_Category :: "StreamFormat \<Rightarrow> FormatCategory" where
  "sample_Category f =
     (if sf_v4l2_pixel_format f = V4L2_PIX_FMT_JPEG then kFormatCategoryStalling
      else if sf_v4l2_pixel_format f = V4L2_PIX_FMT_YUV420 then kFormatCategoryNonStalling
      else kFormatCategoryUnknown)"

definition sample_isValidReuseStream :: "Stream \<Rightarrow> camera3_stream \<Rightarrow> bool" where
  "sample_isValidReuseStream s a =
     (mType s = cs_stream_type a \<and> mFormat s = cs_format a
      \<and> mWidth s = cs_width a \<and> mHeight s = cs_height a)"

definition sample_queryctrl :: v4l2_queryctrl where
  "sample_queryctrl =
     \<lparr>qc_id = 0, qc_type = V4L2_CTRL_TYPE_BITMASK, qc_name = replicate 32 0, qc_minimum = 0,
      qc_maximum = 0xFFFFFFFF, qc_step = 0, qc_default_value = 0x80000000, qc_flags = 0\<rparr>"

definition sample_durations :: "32 word \<Rightarrow> int \<times> int \<Rightarrow> int \<times> (int \<times> int)" where
  "sample_durations v4l2_format frame_size =
     (if v4l2_format = V4L2_PIX_FMT_JPEG then (0, (33333333, 66666666))
      else (0, (33333333, 100000000)))"

definition sample_externals :: externals where
  "sample_externals =
     \<lparr>drv_QUERY_EXT_CTRL = (\<lambda>d. ((- 1, ENOTTY), d)),
      drv_QUERYCTRL = (\<lambda>d. ((0, 0), sample_queryctrl\<lparr>qc_id := qc_id d\<rparr>)),
      drv_G_CTRL = (\<lambda>d. ((0, 0), d\<lparr>ctrl_value := 1\<rparr>)),
      drv_S_CTRL = (\<lambda>d. ((0, 0), d)),
      drv_S_FMT = (\<lambda>d. ((0, 0), d\<lparr>pix_bytesperline := pix_width d\<rparr>)),
      drv_REQBUFS = (\<lambda>d. ((0, 0), d)),
      drv_QUERYBUF = (\<lambda>d. ((0, 0), d)),
      drv_QBUF = (\<lambda>d. ((0, 0), d)),
      drv_DQBUF = (\<lambda>d. ((0, 0), d)),
      drv_STREAMON = (\<lambda>d. ((0, 0), d)),
      drv_STREAMOFF = (\<lambda>d. ((0, 0), d)),
      gralloc_lock = (\<lambda>b n d. (0, d)),
      gralloc_unlock = (\<lambda>d. 0),
      gralloc_unlockAllBuffers = 0,
      StreamFormat_of_stream = sample_StreamFormat_of_stream,
      StreamFormat_of_v4l2 = sample_StreamFormat_of_v4l2,
      StreamFormat_equal = sample_StreamFormat_equal,
      FillFormatRequest = sample_FillFormatRequest,
      Category = sample_Category,
      uninit_queryctrl = sample_queryctrl,
      uninit_control = \<lparr>ctrl_id = 0, ctrl_value = 0\<rparr>,
      uninit_max_buffers = (\<lambda>i. 0),
      uninit_newStreams = (\<lambda>i. None),
      isValidReuseStream = sample_isValidReuseStream,
      sync_wait = (\<lambda>fd timeout. 0),
      isValidRequest = (\<lambda>r. True),
      connection_status = 0,
      GetFormats = (0, [V4L2_PIX_FMT_YUV420, V4L2_PIX_FMT_JPEG]),
      GetFormatFrameSizes = (\<lambda>f. (0, [(640, 480)])),
      GetFormatFrameDurationRange = sample_durations,
      V4L2ToHalPixelFormat = sample_V4L2ToHalPixelFormat,
      HalToV4L2PixelFormat = sample_HalToV4L2PixelFormat\<rparr>"

definition sample_wrapper :: V4L2Wrapper where
  "sample_wrapper =
     \<lparr>device_fd = 3, w_format = None, w_max_buffers = 0, extended_query_supported = False,
      errno = 0, ioctls = [], gralloc_calls = []\<rparr>"

definition sample_characteristics :: Characteristics where
  "sample_characteristics =
     \<lparr>mMaxRawOutputStreams = 0, mMaxStallingOutputStreams = 1,
      mMaxNonStallingOutputStreams = 2, mMaxInputStreams = 0, mStreamConfigs = [],
      mMinFrameDurations = [], mStallDurations = [], mMaxFrameDuration = 0, mFpsRanges = [],
      mCharacteristicsInitialized = False\<rparr>"

definition sample_stream :: camera3_stream where
  "sample_stream =
     \<lparr>cs_stream_type = CAMERA3_STREAM_OUTPUT, cs_width = 640, cs_height = 480,
      cs_format = HAL_PIXEL_FORMAT_YCbCr_420_888, cs_usage = 0, cs_max_buffers = 0,
      cs_priv = None, cs_data_space = 0, cs_rotation = 0\<rparr>"

text \<open>A camera with one configured stream, the object at address 0, and settings provided.\<close>

definition sample_camera :: Camera where
  "sample_camera =
     \<lparr>mId = 0, mSettingsSet = True, mBusy = True, mStreams = Some [Some 0], mNumStreams = 1,
      mTemplates = (\<lambda>type. None),
      stream_objects = [Some ((new_Stream sample_stream)\<lparr>mMaxBuffers := 1\<rparr>)],
      characteristics = sample_characteristics, mV4L2Device = sample_wrapper, callbacks = [],
      initTemplate_calls = [], request_queue = []\<rparr>"

definition sample_request :: CaptureRequest where
  "sample_request =
     \<lparr>cr_frame_number = 7, cr_settings = [(ANDROID_SENSOR_TIMESTAMP, [1])],
      cr_input_buffer = None,
      cr_output_buffers = [\<lparr>sb_stream = 0, sb_buffer = 0, sb_status = 0,
                             sb_acquire_fence = - 1, sb_release_fence = - 1\<rparr>]\<rparr>"

section \<open>Notions used in the statements\<close>

text \<open>The callbacks a call issued: those the camera has after it beyond those it had.\<close>

definition issued :: "Camera \<Rightarrow> Camera \<Rightarrow> callback list" where
  "issued cam cam' = drop (length (callbacks cam)) (callbacks cam')"

definition is_notify :: "callback \<Rightarrow> bool" where
  "is_notify c = (case c of notify m \<Rightarrow> True | process_capture_result r \<Rightarrow> False)"

definition is_result :: "callback \<Rightarrow> bool" where
  "is_result c = (case c of notify m \<Rightarrow> False | process_capture_result r \<Rightarrow> True)"

text \<open>The result structure that \<open>sendResult\<close> fills for a request.\<close>

definition capture_result_of :: "CaptureRequest \<Rightarrow> camera3_capture_result" where
  "capture_result_of request =
     \<lparr>res_frame_number = cr_frame_number request, res_result = cr_settings request,
      res_num_output_buffers = length (cr_output_buffers request),
      res_output_buffers = cr_output_buffers request,
      res_input_buffer = cr_input_buffer request, res_partial_result = 1\<rparr>"

text \<open>The object of an output stream of 640 x 480.\<close>

definition sample_Stream :: Stream where
  "sample_Stream = new_Stream sample_stream"

text \<open>The same object as an input stream, and a driver that refuses VIDIOC_S_FMT.\<close>

definition sample_input_Stream :: Stream where
  "sample_input_Stream = sample_Stream\<lparr>mType := CAMERA3_STREAM_INPUT\<rparr>"

definition failing_S_FMT :: externals where
  "failing_S_FMT = sample_externals\<lparr>drv_S_FMT := (\<lambda>d. ((- 1, EIO), d))\<rparr>"

text \<open>Whether the options of a control, if it has any, accept a value.\<close>

definition accepts :: "'v Control \<Rightarrow> 'v \<Rightarrow> bool" where
  "accepts control v =
     (case options_IsSupported control of None \<Rightarrow> True | Some supported \<Rightarrow> supported v)"

text \<open>The control and the request of the test ControlTest.SetRequest.\<close>

definition ANDROID_COLOR_CORRECTION_ABERRATION_MODE :: int where
  "ANDROID_COLOR_CORRECTION_ABERRATION_MODE = 3"

definition sample_control :: "8 word Control" where
  "sample_control =
     \<lparr>delegate_tag = ANDROID_COLOR_CORRECTION_ABERRATION_MODE, delegate_SetValue = (\<lambda>v. 0),
      options_IsSupported = Some (\<lambda>v. v = 123)\<rparr>"

text \<open>A camera whose base block can be built, and one whose characteristics cannot be read.\<close>

definition sample_template_source :: template_source where
  "sample_template_source =
     \<lparr>base_result = 0, base_metadata = [],
      choices = \<lparr>still_af_mode = 0, video_af_mode = 0, flat_fps_range = (30, 30),
                 variable_fps_range = (15, 30)\<rparr>\<rparr>"

definition failing_template_source :: template_source where
  "failing_template_source = sample_template_source\<lparr>base_result := - ENODEV\<rparr>"

text \<open>
  Two new output streams that differ in width; and a configuration whose first stream
  claims to reuse the current object (at address 0) with another width, while the array
  newly allocated for it holds, in the slot of the second stream, the address 0.
\<close>

definition mixed_width_configuration :: camera3_stream_configuration where
  "mixed_width_configuration =
     \<lparr>cfg_streams = [sample_stream, sample_stream\<lparr>cs_width := 320\<rparr>],
      cfg_operation_mode = CAMERA3_STREAM_CONFIGURATION_NORMAL_MODE\<rparr>"

definition rejected_reuse_configuration :: camera3_stream_configuration where
  "rejected_reuse_configuration =
     \<lparr>cfg_streams = [sample_stream\<lparr>cs_width := 320, cs_max_buffers := 1, cs_priv := Some 0\<rparr>,
                     sample_stream],
      cfg_operation_mode = CAMERA3_STREAM_CONFIGURATION_NORMAL_MODE\<rparr>"

definition stale_array :: externals where
  "stale_array = sample_externals\<lparr>uninit_newStreams := (\<lambda>i. Some 0)\<rparr>"

definition empty_request :: CaptureRequest where
  "empty_request = sample_request\<lparr>cr_settings := []\<rparr>"

text \<open>
  The HAL formats that initCharacteristics iterates over, and the frame duration ranges
  (minimum, maximum) that the device reports for the frame sizes of a HAL format.
\<close>

definition hal_formats :: "externals \<Rightarrow> int list" where
  "hal_formats e =
     set_insert HAL_PIXEL_FORMAT_IMPLEMENTATION_DEFINED (hal_formats_of e (snd (GetFormats e)) [])"

definition duration_ranges :: "externals \<Rightarrow> int \<Rightarrow> (int \<times> int) list" where
  "duration_ranges e hal_format =
     map (\<lambda>frame_size.
            snd (GetFormatFrameDurationRange e (HalToV4L2PixelFormat e hal_format) frame_size))
       (snd (GetFormatFrameSizes e (HalToV4L2PixelFormat e hal_format)))"

text \<open>The smallest of a list of durations (the largest 64-bit integer for no duration).\<close>

definition smallest :: "int list \<Rightarrow> int" where
  "smallest ds = fold min ds INT64_MAX"

text \<open>
  The two rates the code computes: from the smallest maximum frame duration over the
  frame sizes of all formats, and from the smallest minimum frame duration over the
  frame sizes of YCbCr_420_888.
\<close>

definition min_fps :: "externals \<Rightarrow> int" where
  "min_fps e =
     1000000000 sdiv smallest (map snd (concat (map (duration_ranges e) (hal_formats e))))"

definition max_yuv_fps :: "externals \<Rightarrow> int" where
  "max_yuv_fps e =
     1000000000 sdiv smallest (map fst (duration_ranges e HAL_PIXEL_FORMAT_YCbCr_420_888))"

definition fps_ranges :: "int \<Rightarrow> int \<Rightarrow> int list list" where
  "fps_ranges lo hi = [[lo, hi], [hi, hi]] @ (if hi > 30 then [[30, 30]] else [])"

text \<open>
  The claim's minimum frame rate of YCbCr_420_888: from the largest maximum frame
  duration over the frame sizes of that format.
\<close>

definition spec_min_yuv_fps :: "externals \<Rightarrow> int" where
  "spec_min_yuv_fps e =
     1000000000 sdiv
       fold max (map snd (duration_ranges e HAL_PIXEL_FORMAT_YCbCr_420_888)) (- INT64_MAX - 1)"

text \<open>Every query that initCharacteristics makes succeeds, and both required formats are there.\<close>

definition queries_succeed :: "externals \<Rightarrow> bool" where
  "queries_succeed e =
     (connection_status e = 0 \<and> fst (GetFormats e) = 0
      \<and> HAL_PIXEL_FORMAT_YCbCr_420_888 \<in> set (hal_formats e)
      \<and> HAL_PIXEL_FORMAT_BLOB \<in> set (hal_formats e)
      \<and> (\<forall>hal_format \<in> set (hal_formats e).
            HalToV4L2PixelFormat e hal_format \<noteq> 0
            \<and> fst (GetFormatFrameSizes e (HalToV4L2PixelFormat e hal_format)) = 0
            \<and> (\<forall>frame_size \<in> set (snd (GetFormatFrameSizes e (HalToV4L2PixelFormat e hal_format))).
                  fst (GetFormatFrameDurationRange e (HalToV4L2PixelFormat e hal_format) frame_size) = 0)))"

text \<open>A device whose JPEG frames last 50 ms at most.\<close>

definition fast_jpeg :: externals where
  "fast_jpeg =
     sample_externals\<lparr>GetFormatFrameDurationRange :=
       (\<lambda>v4l2_format frame_size.
          if v4l2_format = V4L2_PIX_FMT_JPEG then (0, (33333333, 50000000))
          else (0, (33333333, 100000000)))\<rparr>"

section \<open>Properties of the completion of a request\<close>

lemma callbacks_completeRequestWithError:
  "callbacks (completeRequestWithError request cam) =
     callbacks cam @
       [notify (CAMERA3_MSG_ERROR (cr_frame_number request) None CAMERA3_MSG_ERROR_REQUEST),
        process_capture_result (capture_result_of request)]"
  by (simp add: completeRequestWithError_def sendResult_def capture_result_of_def)

lemma callbacks_completeRequest:
  "callbacks (completeRequest request err cam) =
     callbacks cam @
       [notify (if err = 0 \<and> fst (SingleTagValue (cr_settings request) ANDROID_SENSOR_TIMESTAMP 0) = 0
                then CAMERA3_MSG_SHUTTER (cr_frame_number request)
                       (snd (SingleTagValue (cr_settings request) ANDROID_SENSOR_TIMESTAMP 0))
                else CAMERA3_MSG_ERROR (cr_frame_number request) None CAMERA3_MSG_ERROR_REQUEST),
        process_capture_result (capture_result_of request)]"
  by (simp add: completeRequest_def callbacks_completeRequestWithError sendResult_def
      notifyShutter_def capture_result_of_def split: prod.splits)

text \<open>
  C1. Camera::completeRequest issues exactly one notify and then exactly one
  process_capture_result, and nothing else: with no error and a settings block whose
  ANDROID_SENSOR_TIMESTAMP entry holds one value, a shutter notify with the frame number
  and that timestamp; with an error, or with the tag absent (or an entry that does not
  hold exactly one value), an error notify with error code ERROR_REQUEST. The result
  that follows carries the request's frame number, settings and buffers.
\<close>

theorem completeRequest_one_notify_one_result:
  "(err = 0 \<and> map_of (cr_settings request) ANDROID_SENSOR_TIMESTAMP = Some [timestamp] \<longrightarrow>
      issued cam (completeRequest request err cam) =
        [notify (CAMERA3_MSG_SHUTTER (cr_frame_number request) timestamp),
         process_capture_result (capture_result_of request)])
   \<and> (err \<noteq> 0 \<or> map_of (cr_settings request) ANDROID_SENSOR_TIMESTAMP = None
        \<or> (\<exists>vs. map_of (cr_settings request) ANDROID_SENSOR_TIMESTAMP = Some vs \<and> length vs \<noteq> 1) \<longrightarrow>
      issued cam (completeRequest request err cam) =
        [notify (CAMERA3_MSG_ERROR (cr_frame_number request) None CAMERA3_MSG_ERROR_REQUEST),
         process_capture_result (capture_result_of request)])
   \<and> length (filter is_notify (issued cam (completeRequest request err cam))) = 1
   \<and> length (filter is_result (issued cam (completeRequest request err cam))) = 1
   \<and> take (length (callbacks cam)) (callbacks (completeRequest request err cam)) = callbacks cam"
proof -
  have single:
    "length vs \<noteq> 1 \<Longrightarrow>
       (case vs of [v] \<Rightarrow> (0::int, v) | _ \<Rightarrow> (- EINVAL, (0::64 word))) = (- EINVAL, 0)" for vs
    by (cases vs) (auto split: list.splits)
  show ?thesis
    by (auto simp add: issued_def callbacks_completeRequest SingleTagValue_def is_notify_def
        is_result_def ENOENT_def EINVAL_def single split: option.splits list.splits)
qed

theorem completeRequest_one_notify_one_result_witness:
  "issued sample_camera (completeRequest sample_request 0 sample_camera) =
     [notify (CAMERA3_MSG_SHUTTER 7 1), process_capture_result (capture_result_of sample_request)]
   \<and> issued sample_camera (completeRequest (sample_request\<lparr>cr_settings := []\<rparr>) 0 sample_camera) =
     [notify (CAMERA3_MSG_ERROR 7 None CAMERA3_MSG_ERROR_REQUEST),
      process_capture_result (capture_result_of (sample_request\<lparr>cr_settings := []\<rparr>))]"
  using completeRequest_one_notify_one_result [of 0 sample_request 1 sample_camera]
    completeRequest_one_notify_one_result [of 0 "sample_request\<lparr>cr_settings := []\<rparr>" 1 sample_camera]
  by (simp add: sample_request_def)

section \<open>The wrapper without a connection\<close>

lemma IoctlLocked_not_connected:
  "\<not> connected w \<Longrightarrow> IoctlLocked request driver data w = ((- ENODEV, data), w)"
  by (simp add: IoctlLocked_def)

lemma IoctlLocked_connected:
  "connected w \<Longrightarrow>
     IoctlLocked request driver data w =
       ((fst (fst (driver data)), snd (driver data)),
        w\<lparr>errno := (if fst (fst (driver data)) < 0 then snd (fst (driver data)) else errno w),
          ioctls := ioctls w @ [request]\<rparr>)"
  by (simp add: IoctlLocked_def split: prod.splits)

lemma StreamOn_not_connected:
  "\<not> connected w \<Longrightarrow> StreamOn e w = ((if w_format w = None then - EINVAL else - ENODEV), w)"
  by (simp add: StreamOn_def IoctlLocked_not_connected ENODEV_def split: option.splits)

lemma StreamOff_not_connected:
  "\<not> connected w \<Longrightarrow>
     fst (StreamOff e w) = - ENODEV \<and> ioctls (snd (StreamOff e w)) = ioctls w"
  by (simp add: StreamOff_def IoctlLocked_not_connected unlockAllBuffers_def ENODEV_def
      split: option.splits)

lemma QueryControl_not_connected:
  "\<not> connected w \<Longrightarrow>
     fst (fst (QueryControl e control_id w)) = - ENODEV \<and> snd (QueryControl e control_id w) = w"
  by (simp add: QueryControl_def QueryControl_basic_def IoctlLocked_not_connected ENODEV_def Let_def)

lemma GetControl_not_connected:
  "\<not> connected w \<Longrightarrow> GetControl e control_id v w = ((- ENODEV, v), w)"
  by (simp add: GetControl_def IoctlLocked_not_connected ENODEV_def Let_def)

lemma SetControl_not_connected:
  "\<not> connected w \<Longrightarrow> SetControl e control_id desired r w = ((- ENODEV, r), w)"
  by (simp add: SetControl_def IoctlLocked_not_connected ENODEV_def Let_def)

lemma SetupBuffers_not_connected:
  "\<not> connected w \<Longrightarrow>
     fst (SetupBuffers e w) = - ENODEV \<and> ioctls (snd (SetupBuffers e w)) = ioctls w"
  by (simp add: SetupBuffers_def IoctlLocked_not_connected unlockAllBuffers_def ENODEV_def
      split: option.splits)

lemma EnqueueBuffer_not_connected:
  "\<not> connected w \<Longrightarrow> EnqueueBuffer e camera_buffer w = (- ENODEV, w)"
  by (simp add: EnqueueBuffer_def IoctlLocked_not_connected ENODEV_def split: option.splits)

lemma DequeueBuffer_not_connected:
  "\<not> connected w \<Longrightarrow>
     fst (fst (DequeueBuffer e buffer w)) = - ENODEV \<and> snd (DequeueBuffer e buffer w) = w"
  by (simp add: DequeueBuffer_def IoctlLocked_not_connected ENODEV_def split: option.splits)

lemma SetFormat_not_connected:
  "\<not> connected w \<Longrightarrow>
     SetFormat e stream m w =
       (((if isInputType stream then - EINVAL
          else if (case w_format w of None \<Rightarrow> False
                   | Some f \<Rightarrow> StreamFormat_equal e (StreamFormat_of_stream e stream) f) then 0
          else - ENODEV), m), w)"
  by (simp add: SetFormat_def IoctlLocked_not_connected ENODEV_def Let_def)

text \<open>
  C4, as stated, fails: after \<open>Disconnect\<close> no format is cached, and StreamOn then
  answers -EINVAL, not -ENODEV.
\<close>

theorem StreamOn_disconnected_counterexample:
  "\<not> connected (Disconnect sample_wrapper)
   \<and> fst (StreamOn sample_externals (Disconnect sample_wrapper)) = - EINVAL
   \<and> fst (StreamOn sample_externals (Disconnect sample_wrapper)) \<noteq> - ENODEV"
  by (simp add: StreamOn_def Disconnect_def connected_def sample_wrapper_def EINVAL_def ENODEV_def)

text \<open>
  C4, amended. When the wrapper is not connected, none of StreamOn, StreamOff,
  QueryControl, GetControl, SetControl, SetFormat, SetupBuffers, EnqueueBuffer and
  DequeueBuffer issues an ioctl. StreamOff, QueryControl, GetControl, SetControl,
  SetupBuffers, EnqueueBuffer and DequeueBuffer return -ENODEV. StreamOn returns -EINVAL
  when no format is cached (as it is after Disconnect) and -ENODEV otherwise. SetFormat
  returns -EINVAL for an input stream, 0 for another stream whose format is the cached
  one, and -ENODEV otherwise.
\<close>

theorem not_connected_no_ioctl:
  assumes "\<not> connected w"
  shows "StreamOn e w = ((if w_format w = None then - EINVAL else - ENODEV), w)
    \<and> fst (StreamOff e w) = - ENODEV \<and> ioctls (snd (StreamOff e w)) = ioctls w
    \<and> fst (fst (QueryControl e control_id w)) = - ENODEV \<and> snd (QueryControl e control_id w) = w
    \<and> GetControl e control_id v w = ((- ENODEV, v), w)
    \<and> SetControl e control_id desired r w = ((- ENODEV, r), w)
    \<and> SetFormat e stream m w =
        (((if isInputType stream then - EINVAL
           else if (case w_format w of None \<Rightarrow> False
                    | Some f \<Rightarrow> StreamFormat_equal e (StreamFormat_of_stream e stream) f) then 0
           else - ENODEV), m), w)
    \<and> fst (SetupBuffers e w) = - ENODEV \<and> ioctls (snd (SetupBuffers e w)) = ioctls w
    \<and> EnqueueBuffer e camera_buffer w = (- ENODEV, w)
    \<and> fst (fst (DequeueBuffer e buffer w)) = - ENODEV \<and> snd (DequeueBuffer e buffer w) = w"
  using assms StreamOn_not_connected [of w e] StreamOff_not_connected [of w e]
    QueryControl_not_connected [of w e control_id] GetControl_not_connected [of w e control_id v]
    SetControl_not_connected [of w e control_id desired r] SetFormat_not_connected [of w e stream m]
    SetupBuffers_not_connected [of w e] EnqueueBuffer_not_connected [of w e camera_buffer]
    DequeueBuffer_not_connected [of w e buffer]
  by blast


theorem not_connected_no_ioctl_witness:
  "\<not> connected (Disconnect sample_wrapper)
   \<and> StreamOn sample_externals (Disconnect sample_wrapper) = (- EINVAL, Disconnect sample_wrapper)
   \<and> fst (StreamOff sample_externals (Disconnect sample_wrapper)) = - ENODEV
   \<and> GetControl sample_externals 1 0 (Disconnect sample_wrapper)
       = ((- ENODEV, 0), Disconnect sample_wrapper)
   \<and> SetFormat sample_externals sample_Stream 0 (Disconnect sample_wrapper)
       = ((- ENODEV, 0), Disconnect sample_wrapper)
   \<and> ioctls (snd (SetupBuffers sample_externals (Disconnect sample_wrapper))) = []"
proof -
  have nc: "\<not> connected (Disconnect sample_wrapper)"
    by (simp add: Disconnect_def connected_def)
  have fmt: "w_format (Disconnect sample_wrapper) = None"
    by (simp add: Disconnect_def)
  have io: "ioctls (Disconnect sample_wrapper) = []"
    by (simp add: Disconnect_def sample_wrapper_def)
  have out: "\<not> isInputType sample_Stream"
    by (simp add: sample_Stream_def new_Stream_def sample_stream_def isInputType_def
        CAMERA3_STREAM_OUTPUT_def CAMERA3_STREAM_INPUT_def CAMERA3_STREAM_BIDIRECTIONAL_def)
  show ?thesis
    using nc fmt io out
      not_connected_no_ioctl [OF nc, of sample_externals 1 0 0 None sample_Stream 0]
    by simp
qed


section \<open>Properties of QueryControl\<close>

lemma basic_to_extended_maximum:
  "qe_maximum (basic_to_extended query result) =
     (if qc_type query = V4L2_CTRL_TYPE_BITMASK then ucast (qc_maximum query)
      else scast (qc_maximum query))"
  by (simp add: basic_to_extended_def Let_def)

lemma basic_to_extended_default_value:
  "qe_default_value (basic_to_extended query result) =
     (if qc_type query = V4L2_CTRL_TYPE_BITMASK then ucast (qc_default_value query)
      else scast (qc_default_value query))"
  by (simp add: basic_to_extended_def Let_def)

lemma QueryControl_basic_success:
  assumes "connected w"
    and "drv_QUERYCTRL e ((uninit_queryctrl e)\<lparr>qc_id := control_id\<rparr>) = ((0, en), query)"
  shows "QueryControl_basic e control_id result w =
           ((0, basic_to_extended query result), w\<lparr>ioctls := ioctls w @ [VIDIOC_QUERYCTRL]\<rparr>)"
  using assms by (simp add: QueryControl_basic_def IoctlLocked_def Let_def)

lemma QueryControl_falls_back:
  assumes "connected w"
    and "extended_query_supported w \<longrightarrow>
           errno (snd (IoctlLocked VIDIOC_QUERY_EXT_CTRL (drv_QUERY_EXT_CTRL e)
                         (zeroed_query_ext_ctrl\<lparr>qe_id := control_id\<rparr>) w)) = ENOTTY"
    and "drv_QUERYCTRL e ((uninit_queryctrl e)\<lparr>qc_id := control_id\<rparr>) = ((0, en), query)"
  shows "\<exists>result. fst (QueryControl e control_id w) = (0, basic_to_extended query result)"
proof (cases "extended_query_supported w")
  case False
  then show ?thesis
    using assms by (auto simp add: QueryControl_def QueryControl_basic_success)
next
  case True
  obtain res result w1 where io:
    "IoctlLocked VIDIOC_QUERY_EXT_CTRL (drv_QUERY_EXT_CTRL e)
       (zeroed_query_ext_ctrl\<lparr>qe_id := control_id\<rparr>) w = ((res, result), w1)"
    by (metis surj_pair)
  have "connected w1"
    using io assms(1) by (auto simp add: IoctlLocked_def connected_def split: prod.splits)
  then have "QueryControl_basic e control_id result w1 =
           ((0, basic_to_extended query result), w1\<lparr>ioctls := ioctls w1 @ [VIDIOC_QUERYCTRL]\<rparr>)"
    using assms(3) by (rule QueryControl_basic_success)
  then show ?thesis
    using True assms(2) io by (auto simp add: QueryControl_def)
qed

text \<open>
  C3. When QueryControl falls back to VIDIOC_QUERYCTRL (extended queries are not
  supported, or \<open>errno\<close> is ENOTTY after the extended query) and the basic query
  succeeds, the 32-bit maximum and default value of a control of type BITMASK are
  widened to 64 bits by zero-extension: their unsigned values are kept, 0xFFFFFFFF
  becomes 0x00000000FFFFFFFF and 0x80000000 becomes 0x0000000080000000. For every other
  type they are widened by sign-extension: their signed values are kept.
\<close>

theorem QueryControl_bitmask_zero_extension:
  assumes "connected w"
    and "extended_query_supported w \<longrightarrow>
           errno (snd (IoctlLocked VIDIOC_QUERY_EXT_CTRL (drv_QUERY_EXT_CTRL e)
                         (zeroed_query_ext_ctrl\<lparr>qe_id := control_id\<rparr>) w)) = ENOTTY"
    and "drv_QUERYCTRL e ((uninit_queryctrl e)\<lparr>qc_id := control_id\<rparr>) = ((0, en), query)"
  shows "fst (fst (QueryControl e control_id w)) = 0
    \<and> (qc_type query = V4L2_CTRL_TYPE_BITMASK \<longrightarrow>
         qe_maximum (snd (fst (QueryControl e control_id w))) = ucast (qc_maximum query)
         \<and> qe_default_value (snd (fst (QueryControl e control_id w))) = ucast (qc_default_value query)
         \<and> uint (qe_maximum (snd (fst (QueryControl e control_id w)))) = uint (qc_maximum query)
         \<and> uint (qe_default_value (snd (fst (QueryControl e control_id w))))
             = uint (qc_default_value query))
    \<and> (qc_type query = V4L2_CTRL_TYPE_BITMASK \<and> qc_maximum query = 0xFFFFFFFF
         \<and> qc_default_value query = 0x80000000 \<longrightarrow>
         qe_maximum (snd (fst (QueryControl e control_id w))) = 0x00000000FFFFFFFF
         \<and> qe_default_value (snd (fst (QueryControl e control_id w))) = 0x0000000080000000)
    \<and> (qc_type query \<noteq> V4L2_CTRL_TYPE_BITMASK \<longrightarrow>
         qe_maximum (snd (fst (QueryControl e control_id w))) = scast (qc_maximum query)
         \<and> qe_default_value (snd (fst (QueryControl e control_id w))) = scast (qc_default_value query)
         \<and> sint (qe_maximum (snd (fst (QueryControl e control_id w)))) = sint (qc_maximum query)
         \<and> sint (qe_default_value (snd (fst (QueryControl e control_id w))))
             = sint (qc_default_value query))"
proof -
  obtain result where r: "fst (QueryControl e control_id w) = (0, basic_to_extended query result)"
    using QueryControl_falls_back [OF assms] by blast
  have u: "uint (ucast x :: 64 word) = uint x" for x :: "32 word"
    by (simp add: uint_up_ucast is_up)
  have s: "sint (scast x :: 64 word) = sint x" for x :: "32 word"
    by (simp add: sint_up_scast is_up)
  show ?thesis
    by (simp add: r basic_to_extended_maximum basic_to_extended_default_value u s)
qed

theorem QueryControl_bitmask_zero_extension_witness:
  "connected sample_wrapper
   \<and> fst (fst (QueryControl sample_externals 9 sample_wrapper)) = 0
   \<and> qe_maximum (snd (fst (QueryControl sample_externals 9 sample_wrapper))) = 0x00000000FFFFFFFF
   \<and> qe_default_value (snd (fst (QueryControl sample_externals 9 sample_wrapper)))
       = 0x0000000080000000
   \<and> qe_maximum (snd (fst (QueryControl sample_externals 9
                             (sample_wrapper\<lparr>extended_query_supported := True\<rparr>))))
       = 0x00000000FFFFFFFF"
proof -
  have c: "connected sample_wrapper" "connected (sample_wrapper\<lparr>extended_query_supported := True\<rparr>)"
    by (simp_all add: connected_def sample_wrapper_def)
  have x: "extended_query_supported sample_wrapper \<longrightarrow>
           errno (snd (IoctlLocked VIDIOC_QUERY_EXT_CTRL (drv_QUERY_EXT_CTRL sample_externals)
                         (zeroed_query_ext_ctrl\<lparr>qe_id := 9\<rparr>) sample_wrapper)) = ENOTTY"
    by (simp add: sample_wrapper_def)
  have y: "extended_query_supported (sample_wrapper\<lparr>extended_query_supported := True\<rparr>) \<longrightarrow>
           errno (snd (IoctlLocked VIDIOC_QUERY_EXT_CTRL (drv_QUERY_EXT_CTRL sample_externals)
                         (zeroed_query_ext_ctrl\<lparr>qe_id := 9\<rparr>)
                         (sample_wrapper\<lparr>extended_query_supported := True\<rparr>))) = ENOTTY"
    by (simp add: IoctlLocked_def c sample_externals_def)
  have d: "drv_QUERYCTRL sample_externals ((uninit_queryctrl sample_externals)\<lparr>qc_id := 9\<rparr>)
             = ((0, 0), sample_queryctrl\<lparr>qc_id := 9\<rparr>)"
    by (simp add: sample_externals_def)
  have q: "qc_type (sample_queryctrl\<lparr>qc_id := 9\<rparr>) = V4L2_CTRL_TYPE_BITMASK"
    "qc_maximum (sample_queryctrl\<lparr>qc_id := 9\<rparr>) = 0xFFFFFFFF"
    "qc_default_value (sample_queryctrl\<lparr>qc_id := 9\<rparr>) = 0x80000000"
    by (simp_all add: sample_queryctrl_def)
  show ?thesis
    using QueryControl_bitmask_zero_extension [OF c(1) x d]
      QueryControl_bitmask_zero_extension [OF c(2) y d] c q
    by simp
qed

section \<open>Properties of SetFormat\<close>

lemma SetFormat_cached:
  assumes "\<not> isInputType stream"
    and "w_format w = Some f"
    and "StreamFormat_equal e (StreamFormat_of_stream e stream) f"
  shows "SetFormat e stream m w = ((0, m), w)"
  using assms by (simp add: SetFormat_def)

lemma SetFormat_input:
  "isInputType stream \<Longrightarrow> SetFormat e stream m w = ((- EINVAL, m), w)"
  by (simp add: SetFormat_def)

lemma w_format_IoctlLocked:
  "w_format (snd (IoctlLocked request driver data w)) = w_format w"
  by (simp add: IoctlLocked_def split: prod.splits)

lemma w_format_SetupBuffers: "w_format (snd (SetupBuffers e w)) = w_format w"
  by (simp add: SetupBuffers_def IoctlLocked_def unlockAllBuffers_def Let_def
      split: option.splits prod.splits)

lemma SetFormat_success_caches:
  assumes "SetFormat e stream m0 w0 = ((0, m1), w1)"
  shows "\<not> isInputType stream
    \<and> (\<exists>f. w_format w1 = Some f \<and> StreamFormat_equal e (StreamFormat_of_stream e stream) f)"
proof -
  have ni: "\<not> isInputType stream"
    using assms by (auto simp add: SetFormat_def EINVAL_def)
  show ?thesis
  proof (cases "case w_format w0 of None \<Rightarrow> False
                | Some f \<Rightarrow> StreamFormat_equal e (StreamFormat_of_stream e stream) f")
    case True
    then show ?thesis
      using assms ni by (auto simp add: SetFormat_def split: option.splits)
  next
    case False
    obtain res new_format wa where io:
      "IoctlLocked VIDIOC_S_FMT (drv_S_FMT e)
         (FillFormatRequest e (StreamFormat_of_stream e stream)) w0 = ((res, new_format), wa)"
      by (metis surj_pair)
    obtain r2 wb where sb:
      "SetupBuffers e (wa\<lparr>w_format := Some (StreamFormat_of_v4l2 e new_format)\<rparr>) = (r2, wb)"
      by (metis surj_pair)
    have eq: "StreamFormat_equal e (StreamFormat_of_stream e stream) (StreamFormat_of_v4l2 e new_format)"
      and w1: "w1 = wb"
      using assms ni False io sb
      by (auto simp add: SetFormat_def Let_def ENODEV_def EINVAL_def split: if_splits)
    have "w_format wb = Some (StreamFormat_of_v4l2 e new_format)"
      using w_format_SetupBuffers [of e "wa\<lparr>w_format := Some (StreamFormat_of_v4l2 e new_format)\<rparr>"] sb
      by simp
    then show ?thesis
      using ni eq w1 by simp
  qed
qed

lemma sample_Stream_simps:
  "\<not> isInputType sample_Stream" "isOutputType sample_Stream" "isInputType sample_input_Stream"
  "sample_StreamFormat_of_stream sample_Stream =
     \<lparr>sf_type = 1, sf_v4l2_pixel_format = 0x32315559, sf_width = 640, sf_height = 480,
      sf_bytes_per_line = 0\<rparr>"
  by (simp_all add: sample_Stream_def sample_input_Stream_def new_Stream_def sample_stream_def
      isInputType_def isOutputType_def CAMERA3_STREAM_OUTPUT_def CAMERA3_STREAM_INPUT_def
      CAMERA3_STREAM_BIDIRECTIONAL_def sample_StreamFormat_of_stream_def
      sample_HalToV4L2PixelFormat_def HAL_PIXEL_FORMAT_YCbCr_420_888_def
      V4L2_BUF_TYPE_VIDEO_CAPTURE_def V4L2_PIX_FMT_YUV420_def)

text \<open>
  C5, as stated, fails twice. An input stream whose format is the cached one is
  answered -EINVAL, not 0. And when the first of two calls with the same stream fails in
  VIDIOC_S_FMT, nothing is cached and the second call issues VIDIOC_S_FMT again: the
  two calls issue it twice.
\<close>

theorem SetFormat_idempotence_counterexample:
  "w_format (sample_wrapper\<lparr>w_format := Some (sample_StreamFormat_of_stream sample_input_Stream)\<rparr>)
     = Some (StreamFormat_of_stream sample_externals sample_input_Stream)
   \<and> fst (fst (SetFormat sample_externals sample_input_Stream 0
        (sample_wrapper\<lparr>w_format := Some (sample_StreamFormat_of_stream sample_input_Stream)\<rparr>)))
      = - EINVAL
   \<and> ioctls (snd (SetFormat sample_externals sample_Stream 0
                     (snd (SetFormat failing_S_FMT sample_Stream 0 sample_wrapper))))
      = [VIDIOC_S_FMT, VIDIOC_S_FMT, VIDIOC_REQBUFS]"
proof -
  have a: "SetFormat failing_S_FMT sample_Stream 0 sample_wrapper
           = ((- ENODEV, 0), sample_wrapper\<lparr>errno := EIO, ioctls := [VIDIOC_S_FMT]\<rparr>)"
    by (simp add: SetFormat_def sample_Stream_simps failing_S_FMT_def sample_externals_def
        sample_wrapper_def IoctlLocked_def connected_def Let_def)
  have b: "ioctls (snd (SetFormat sample_externals sample_Stream 0
             (sample_wrapper\<lparr>errno := EIO, ioctls := [VIDIOC_S_FMT]\<rparr>)))
           = [VIDIOC_S_FMT, VIDIOC_S_FMT, VIDIOC_REQBUFS]"
    by (simp add: SetFormat_def SetupBuffers_def unlockAllBuffers_def sample_Stream_simps
        sample_externals_def sample_wrapper_def IoctlLocked_def connected_def Let_def
        sample_FillFormatRequest_def sample_StreamFormat_of_v4l2_def sample_StreamFormat_equal_def
        V4L2_MEMORY_USERPTR_def)
  have c: "fst (fst (SetFormat sample_externals sample_input_Stream 0
        (sample_wrapper\<lparr>w_format := Some (sample_StreamFormat_of_stream sample_input_Stream)\<rparr>)))
      = - EINVAL"
    by (simp add: SetFormat_def sample_Stream_simps)
  show ?thesis
    using a b c by (simp add: sample_externals_def)
qed

text \<open>
  C5, amended. If the requested stream is not an input stream and its format equals the
  wrapper's cached format, SetFormat returns 0 at once: it issues no ioctl, changes
  neither the cached format nor max_buffers (nor anything else of the wrapper), and
  leaves the caller's variable as it was. Hence after a SetFormat call that returned 0,
  a second call for a stream with equal parameters (not an input stream, of the same
  format) returns 0 and leaves the wrapper as the first call left it. An input stream is
  answered -EINVAL before the cache is looked at: no ioctl is issued, and the wrapper and
  the caller's variable are as they were.
\<close>

theorem SetFormat_idempotent:
  "(\<not> isInputType stream \<and> w_format w = Some f
      \<and> StreamFormat_equal e (StreamFormat_of_stream e stream) f \<longrightarrow>
      SetFormat e stream m w = ((0, m), w))
   \<and> (SetFormat e stream m0 w0 = ((0, m1), w1) \<and> \<not> isInputType stream'
        \<and> StreamFormat_of_stream e stream' = StreamFormat_of_stream e stream \<longrightarrow>
      SetFormat e stream' m w1 = ((0, m), w1))
   \<and> (isInputType stream \<longrightarrow> SetFormat e stream m w = ((- EINVAL, m), w))"
proof (intro conjI impI)
  assume "\<not> isInputType stream \<and> w_format w = Some f
      \<and> StreamFormat_equal e (StreamFormat_of_stream e stream) f"
  then show "SetFormat e stream m w = ((0, m), w)"
    using SetFormat_cached [of stream w f e m] by simp
next
  assume a: "SetFormat e stream m0 w0 = ((0, m1), w1) \<and> \<not> isInputType stream'
        \<and> StreamFormat_of_stream e stream' = StreamFormat_of_stream e stream"
  then obtain g where "w_format w1 = Some g"
    "StreamFormat_equal e (StreamFormat_of_stream e stream) g"
    using SetFormat_success_caches [of e stream m0 w0 m1 w1] by auto
  then show "SetFormat e stream' m w1 = ((0, m), w1)"
    using a SetFormat_cached [of stream' w1 g e m] by simp
next
  assume "isInputType stream"
  then show "SetFormat e stream m w = ((- EINVAL, m), w)"
    by (rule SetFormat_input)
qed

theorem SetFormat_idempotent_witness:
  "SetFormat sample_externals sample_Stream 0 sample_wrapper
     = ((0, 1), snd (SetFormat sample_externals sample_Stream 0 sample_wrapper))
   \<and> ioctls (snd (SetFormat sample_externals sample_Stream 0 sample_wrapper))
       = [VIDIOC_S_FMT, VIDIOC_REQBUFS]
   \<and> SetFormat sample_externals sample_Stream 5
       (snd (SetFormat sample_externals sample_Stream 0 sample_wrapper))
     = ((0, 5), snd (SetFormat sample_externals sample_Stream 0 sample_wrapper))
   \<and> isInputType sample_input_Stream
   \<and> SetFormat sample_externals sample_input_Stream 5
       (sample_wrapper\<lparr>w_format := Some (sample_StreamFormat_of_stream sample_input_Stream)\<rparr>)
     = ((- EINVAL, 5),
        sample_wrapper\<lparr>w_format := Some (sample_StreamFormat_of_stream sample_input_Stream)\<rparr>)"
proof -
  have a: "SetFormat sample_externals sample_Stream 0 sample_wrapper
           = ((0, 1), snd (SetFormat sample_externals sample_Stream 0 sample_wrapper))"
    "ioctls (snd (SetFormat sample_externals sample_Stream 0 sample_wrapper))
       = [VIDIOC_S_FMT, VIDIOC_REQBUFS]"
    by (simp_all add: SetFormat_def SetupBuffers_def unlockAllBuffers_def sample_Stream_simps
        sample_externals_def sample_wrapper_def IoctlLocked_def connected_def Let_def
        sample_FillFormatRequest_def sample_StreamFormat_of_v4l2_def sample_StreamFormat_equal_def
        V4L2_MEMORY_USERPTR_def)
  have b: "SetFormat sample_externals sample_Stream 5
       (snd (SetFormat sample_externals sample_Stream 0 sample_wrapper))
     = ((0, 5), snd (SetFormat sample_externals sample_Stream 0 sample_wrapper))"
    using a sample_Stream_simps(1)
      SetFormat_idempotent [of sample_Stream _ _ sample_externals 5 0 sample_wrapper 1
        "snd (SetFormat sample_externals sample_Stream 0 sample_wrapper)" sample_Stream]
    by simp
  have c: "SetFormat sample_externals sample_input_Stream 5
       (sample_wrapper\<lparr>w_format := Some (sample_StreamFormat_of_stream sample_input_Stream)\<rparr>)
     = ((- EINVAL, 5),
        sample_wrapper\<lparr>w_format := Some (sample_StreamFormat_of_stream sample_input_Stream)\<rparr>)"
    using sample_Stream_simps(3)
      SetFormat_idempotent [of sample_input_Stream
        "sample_wrapper\<lparr>w_format := Some (sample_StreamFormat_of_stream sample_input_Stream)\<rparr>"
        _ sample_externals 5]
    by simp
  show ?thesis
    using a b c sample_Stream_simps(3) by simp
qed

section \<open>Properties of the metadata components\<close>


text \<open>
  C6. Control::SetRequestValues calls the delegate's SetValue if and only if the request
  holds the control's tag with exactly one value that the options (if any) accept, and
  then returns what SetValue returned. If the tag is absent it returns 0 without calling
  SetValue; if the number of values is not 1, or the options reject the value, it
  returns -EINVAL without calling SetValue.
\<close>

theorem SetRequestValues_writes_through:
  "(map_of md (delegate_tag control) = None \<longrightarrow> SetRequestValues control md = (0, []))
   \<and> (map_of md (delegate_tag control) = Some vs \<and> length vs \<noteq> 1 \<longrightarrow>
        SetRequestValues control md = (- EINVAL, []))
   \<and> (map_of md (delegate_tag control) = Some [v] \<and> \<not> accepts control v \<longrightarrow>
        SetRequestValues control md = (- EINVAL, []))
   \<and> (map_of md (delegate_tag control) = Some [v] \<and> accepts control v \<longrightarrow>
        SetRequestValues control md = (delegate_SetValue control v, [v]))
   \<and> (snd (SetRequestValues control md) \<noteq> [] \<longleftrightarrow>
        (\<exists>x. map_of md (delegate_tag control) = Some [x] \<and> accepts control x))"
  by (auto simp add: SetRequestValues_def SupportsRequestValues_def accepts_def
      split: option.splits list.splits)

theorem SetRequestValues_writes_through_witness:
  "SetRequestValues sample_control [(ANDROID_COLOR_CORRECTION_ABERRATION_MODE, [123])] = (0, [123])
   \<and> SetRequestValues sample_control [(ANDROID_COLOR_CORRECTION_ABERRATION_MODE, [99])] = (- EINVAL, [])
   \<and> SetRequestValues sample_control [(ANDROID_COLOR_CORRECTION_ABERRATION_MODE, [1, 2, 3])]
       = (- EINVAL, [])
   \<and> SetRequestValues sample_control [] = (0, [])"
  using SetRequestValues_writes_through
      [of "[(ANDROID_COLOR_CORRECTION_ABERRATION_MODE, [123])]" sample_control "[123]" 123]
    SetRequestValues_writes_through
      [of "[(ANDROID_COLOR_CORRECTION_ABERRATION_MODE, [99])]" sample_control "[99]" 99]
    SetRequestValues_writes_through
      [of "[(ANDROID_COLOR_CORRECTION_ABERRATION_MODE, [1, 2, 3])]" sample_control "[1, 2, 3]" 1]
    SetRequestValues_writes_through [of "[]" sample_control "[]" 0]
  by (simp add: sample_control_def accepts_def)

text \<open>
  C8. For the options {1, 10, 19, 30}, DefaultValueForTemplate returns 0 and stores one
  of the options, for every template id from 1 up to CAMERA3_TEMPLATE_COUNT - 1, whatever
  option the implementation chooses for an id; for no options, it returns -ENODEV for
  every such id (and stores nothing).
\<close>

theorem DefaultValueForTemplate_in_options:
  "(1 \<le> template_type \<and> template_type < CAMERA3_TEMPLATE_COUNT \<longrightarrow>
      fst (DefaultValueForTemplate choice [1, 10, 19, 30 :: int] template_type v) = 0
      \<and> snd (DefaultValueForTemplate choice [1, 10, 19, 30 :: int] template_type v)
          \<in> set [1, 10, 19, 30]
      \<and> MenuIsSupported [1, 10, 19, 30]
          (snd (DefaultValueForTemplate choice [1, 10, 19, 30 :: int] template_type v)))
   \<and> (1 \<le> template_type \<and> template_type < CAMERA3_TEMPLATE_COUNT \<longrightarrow>
        DefaultValueForTemplate choice ([] :: int list) template_type v = (- ENODEV, v))"
proof -
  have "[1, 10, 19, 30 :: int] ! (choice template_type mod 4) \<in> set [1, 10, 19, 30]"
    by (rule nth_mem) simp
  then show ?thesis
    by (simp add: DefaultValueForTemplate_def MenuIsSupported_def)
qed

theorem DefaultValueForTemplate_in_options_witness:
  "DefaultValueForTemplate (\<lambda>t. 0) [1, 10, 19, 30 :: int] 1 (- 1) = (0, 1)
   \<and> snd (DefaultValueForTemplate (\<lambda>t. nat t) [1, 10, 19, 30 :: int] 6 (- 1)) \<in> set [1, 10, 19, 30]
   \<and> DefaultValueForTemplate (\<lambda>t. 0) ([] :: int list) 1 (- 1) = (- ENODEV, - 1)"
  using DefaultValueForTemplate_in_options [of 1 "\<lambda>t. 0" "- 1"]
    DefaultValueForTemplate_in_options [of 6 "\<lambda>t. nat t" "- 1"]
  by (simp add: DefaultValueForTemplate_def CAMERA3_TEMPLATE_COUNT_def)

section \<open>Properties of the request templates\<close>


lemma template_overlay_supported:
  "template_overlay t type \<noteq> None \<longleftrightarrow>
     type = CAMERA3_TEMPLATE_PREVIEW \<or> type = CAMERA3_TEMPLATE_STILL_CAPTURE
     \<or> type = CAMERA3_TEMPLATE_VIDEO_RECORD \<or> type = CAMERA3_TEMPLATE_VIDEO_SNAPSHOT"
  by (simp add: template_overlay_def)

lemma initTemplate_result:
  "fst (initTemplate ts type out) = 0 \<longleftrightarrow> base_result ts = 0 \<and> template_overlay (choices ts) type \<noteq> None"
  by (simp add: initTemplate_def EINVAL_def split: option.splits)

lemma constructDefaultRequestSettings_invalid:
  "\<not> isValidTemplateType type \<Longrightarrow> constructDefaultRequestSettings init type cam = (None, cam)"
  by (simp add: constructDefaultRequestSettings_def)

lemma constructDefaultRequestSettings_cached:
  "isValidTemplateType type \<Longrightarrow> mTemplates cam type = Some t \<Longrightarrow>
     constructDefaultRequestSettings init type cam = (Some t, cam)"
  by (simp add: constructDefaultRequestSettings_def)

lemma constructDefaultRequestSettings_failure:
  "isValidTemplateType type \<Longrightarrow> mTemplates cam type = None \<Longrightarrow> fst (init type []) \<noteq> 0 \<Longrightarrow>
     constructDefaultRequestSettings init type cam
       = (None, cam\<lparr>initTemplate_calls := initTemplate_calls cam @ [type]\<rparr>)"
  by (auto simp add: constructDefaultRequestSettings_def Let_def split: prod.splits)

lemma constructDefaultRequestSettings_success:
  "isValidTemplateType type \<Longrightarrow> mTemplates cam type = None \<Longrightarrow> fst (init type []) = 0 \<Longrightarrow>
     constructDefaultRequestSettings init type cam
       = (Some (snd (init type [])),
          cam\<lparr>initTemplate_calls := initTemplate_calls cam @ [type],
              mTemplates := (mTemplates cam)(type := Some (snd (init type [])))\<rparr>)"
  by (auto simp add: constructDefaultRequestSettings_def Let_def split: prod.splits)

lemma mTemplates_constructDefaultRequestSettings:
  "mTemplates (snd (constructDefaultRequestSettings init type cam)) k =
     (if k = type \<and> isValidTemplateType type \<and> mTemplates cam type = None \<and> fst (init type []) = 0
      then Some (snd (init type [])) else mTemplates cam k)"
  by (auto simp add: constructDefaultRequestSettings_def Let_def split: prod.splits option.splits)

lemma unsupported_never_cached:
  assumes "k = CAMERA3_TEMPLATE_ZERO_SHUTTER_LAG \<or> k = CAMERA3_TEMPLATE_MANUAL"
    and "mTemplates cam k = None"
  shows "mTemplates (snd (constructDefaultRequestSettings (initTemplate ts) type cam)) k = None"
proof -
  have "template_overlay (choices ts) k = None"
    using assms(1) by (auto simp add: template_overlay_def CAMERA3_TEMPLATE_ZERO_SHUTTER_LAG_def
          CAMERA3_TEMPLATE_MANUAL_def CAMERA3_TEMPLATE_PREVIEW_def
          CAMERA3_TEMPLATE_STILL_CAPTURE_def CAMERA3_TEMPLATE_VIDEO_RECORD_def
          CAMERA3_TEMPLATE_VIDEO_SNAPSHOT_def)
  then have "fst (initTemplate ts k []) \<noteq> 0"
    by (simp add: initTemplate_result)
  then show ?thesis
    using assms(2) by (auto simp add: mTemplates_constructDefaultRequestSettings)
qed

text \<open>
  C9, as stated, fails: when the base block cannot be built (here: the characteristics
  cannot be read, -ENODEV), the query for the preview template returns null, and
  nothing is cached.
\<close>

theorem constructDefaultRequestSettings_counterexample:
  "isValidTemplateType CAMERA3_TEMPLATE_PREVIEW
   \<and> fst (constructDefaultRequestSettings (initTemplate failing_template_source)
             CAMERA3_TEMPLATE_PREVIEW sample_camera) = None"
  by (simp add: constructDefaultRequestSettings_def initTemplate_def failing_template_source_def
      isValidTemplateType_def CAMERA3_TEMPLATE_PREVIEW_def CAMERA3_TEMPLATE_COUNT_def
      sample_camera_def ENODEV_def)

text \<open>
  C9, amended. constructDefaultRequestSettings(type) returns null, and builds and caches
  nothing, for every type outside the open interval (0, CAMERA3_TEMPLATE_COUNT); it
  returns null and caches nothing for ZERO_SHUTTER_LAG and MANUAL, which the camera
  never builds: no call, for any type, caches a block for them. For a supported id (preview, still-capture, video-record,
  video-snapshot) it returns the cached block when there is one, without building
  anything; otherwise it calls initTemplate once, and if that succeeds (the base block
  can be built) it returns the non-null block built and caches it, so that every later
  call returns that block without building; if initTemplate fails it returns null and
  caches nothing.
\<close>

theorem constructDefaultRequestSettings_templates:
  "(\<not> (0 < type \<and> type < CAMERA3_TEMPLATE_COUNT) \<longrightarrow>
      constructDefaultRequestSettings (initTemplate ts) type cam = (None, cam))
   \<and> ((type = CAMERA3_TEMPLATE_ZERO_SHUTTER_LAG \<or> type = CAMERA3_TEMPLATE_MANUAL)
        \<and> mTemplates cam type = None \<longrightarrow>
      fst (constructDefaultRequestSettings (initTemplate ts) type cam) = None
      \<and> mTemplates (snd (constructDefaultRequestSettings (initTemplate ts) type cam)) = mTemplates cam)
   \<and> ((k = CAMERA3_TEMPLATE_ZERO_SHUTTER_LAG \<or> k = CAMERA3_TEMPLATE_MANUAL)
        \<and> mTemplates cam k = None \<longrightarrow>
      mTemplates (snd (constructDefaultRequestSettings (initTemplate ts) type cam)) k = None)
   \<and> ((type = CAMERA3_TEMPLATE_PREVIEW \<or> type = CAMERA3_TEMPLATE_STILL_CAPTURE
        \<or> type = CAMERA3_TEMPLATE_VIDEO_RECORD \<or> type = CAMERA3_TEMPLATE_VIDEO_SNAPSHOT) \<longrightarrow>
      (mTemplates cam type = Some t \<longrightarrow>
         constructDefaultRequestSettings (initTemplate ts) type cam = (Some t, cam))
      \<and> (mTemplates cam type = None \<and> base_result ts = 0 \<longrightarrow>
           (\<exists>block. constructDefaultRequestSettings (initTemplate ts) type cam
               = (Some block, cam\<lparr>initTemplate_calls := initTemplate_calls cam @ [type],
                                  mTemplates := (mTemplates cam)(type := Some block)\<rparr>)
              \<and> constructDefaultRequestSettings (initTemplate ts') type
                   (snd (constructDefaultRequestSettings (initTemplate ts) type cam))
                 = (Some block, snd (constructDefaultRequestSettings (initTemplate ts) type cam))))
      \<and> (mTemplates cam type = None \<and> base_result ts \<noteq> 0 \<longrightarrow>
           constructDefaultRequestSettings (initTemplate ts) type cam
             = (None, cam\<lparr>initTemplate_calls := initTemplate_calls cam @ [type]\<rparr>)))"
proof -
  have valid: "isValidTemplateType type \<longleftrightarrow> 0 < type \<and> type < CAMERA3_TEMPLATE_COUNT"
    by (simp add: isValidTemplateType_def)
  have a: "\<not> (0 < type \<and> type < CAMERA3_TEMPLATE_COUNT) \<longrightarrow>
      constructDefaultRequestSettings (initTemplate ts) type cam = (None, cam)"
    using valid constructDefaultRequestSettings_invalid by blast
  have b: "(type = CAMERA3_TEMPLATE_ZERO_SHUTTER_LAG \<or> type = CAMERA3_TEMPLATE_MANUAL)
        \<and> mTemplates cam type = None \<longrightarrow>
      fst (constructDefaultRequestSettings (initTemplate ts) type cam) = None
      \<and> mTemplates (snd (constructDefaultRequestSettings (initTemplate ts) type cam)) = mTemplates cam"
  proof
    assume h: "(type = CAMERA3_TEMPLATE_ZERO_SHUTTER_LAG \<or> type = CAMERA3_TEMPLATE_MANUAL)
        \<and> mTemplates cam type = None"
    then have v: "isValidTemplateType type"
      by (auto simp add: valid CAMERA3_TEMPLATE_ZERO_SHUTTER_LAG_def CAMERA3_TEMPLATE_MANUAL_def
          CAMERA3_TEMPLATE_COUNT_def)
    have "template_overlay (choices ts) type = None"
      using h by (auto simp add: template_overlay_def CAMERA3_TEMPLATE_ZERO_SHUTTER_LAG_def
          CAMERA3_TEMPLATE_MANUAL_def CAMERA3_TEMPLATE_PREVIEW_def
          CAMERA3_TEMPLATE_STILL_CAPTURE_def CAMERA3_TEMPLATE_VIDEO_RECORD_def
          CAMERA3_TEMPLATE_VIDEO_SNAPSHOT_def)
    then have "fst (initTemplate ts type []) \<noteq> 0"
      by (simp add: initTemplate_result)
    then show "fst (constructDefaultRequestSettings (initTemplate ts) type cam) = None
      \<and> mTemplates (snd (constructDefaultRequestSettings (initTemplate ts) type cam)) = mTemplates cam"
      using constructDefaultRequestSettings_failure [OF v, of cam "initTemplate ts"] h by simp
  qed
  have c: "(type = CAMERA3_TEMPLATE_PREVIEW \<or> type = CAMERA3_TEMPLATE_STILL_CAPTURE
        \<or> type = CAMERA3_TEMPLATE_VIDEO_RECORD \<or> type = CAMERA3_TEMPLATE_VIDEO_SNAPSHOT) \<longrightarrow>
      (mTemplates cam type = Some t \<longrightarrow>
         constructDefaultRequestSettings (initTemplate ts) type cam = (Some t, cam))
      \<and> (mTemplates cam type = None \<and> base_result ts = 0 \<longrightarrow>
           (\<exists>block. constructDefaultRequestSettings (initTemplate ts) type cam
               = (Some block, cam\<lparr>initTemplate_calls := initTemplate_calls cam @ [type],
                                  mTemplates := (mTemplates cam)(type := Some block)\<rparr>)
              \<and> constructDefaultRequestSettings (initTemplate ts') type
                   (snd (constructDefaultRequestSettings (initTemplate ts) type cam))
                 = (Some block, snd (constructDefaultRequestSettings (initTemplate ts) type cam))))
      \<and> (mTemplates cam type = None \<and> base_result ts \<noteq> 0 \<longrightarrow>
           constructDefaultRequestSettings (initTemplate ts) type cam
             = (None, cam\<lparr>initTemplate_calls := initTemplate_calls cam @ [type]\<rparr>))"
  proof
    assume h: "type = CAMERA3_TEMPLATE_PREVIEW \<or> type = CAMERA3_TEMPLATE_STILL_CAPTURE
        \<or> type = CAMERA3_TEMPLATE_VIDEO_RECORD \<or> type = CAMERA3_TEMPLATE_VIDEO_SNAPSHOT"
    then have v: "isValidTemplateType type"
      by (auto simp add: valid CAMERA3_TEMPLATE_PREVIEW_def CAMERA3_TEMPLATE_STILL_CAPTURE_def
          CAMERA3_TEMPLATE_VIDEO_RECORD_def CAMERA3_TEMPLATE_VIDEO_SNAPSHOT_def
          CAMERA3_TEMPLATE_COUNT_def)
    have ov: "template_overlay (choices ts) type \<noteq> None"
      using h template_overlay_supported [of "choices ts" type] by blast
    have c1: "mTemplates cam type = Some t \<longrightarrow>
         constructDefaultRequestSettings (initTemplate ts) type cam = (Some t, cam)"
      using constructDefaultRequestSettings_cached [OF v] by blast
    have c2: "mTemplates cam type = None \<and> base_result ts = 0 \<longrightarrow>
           (\<exists>block. constructDefaultRequestSettings (initTemplate ts) type cam
               = (Some block, cam\<lparr>initTemplate_calls := initTemplate_calls cam @ [type],
                                  mTemplates := (mTemplates cam)(type := Some block)\<rparr>)
              \<and> constructDefaultRequestSettings (initTemplate ts') type
                   (snd (constructDefaultRequestSettings (initTemplate ts) type cam))
                 = (Some block, snd (constructDefaultRequestSettings (initTemplate ts) type cam)))"
    proof
      assume g: "mTemplates cam type = None \<and> base_result ts = 0"
      then have ok: "fst (initTemplate ts type []) = 0"
        using ov by (simp add: initTemplate_result)
      let ?block = "snd (initTemplate ts type [])"
      let ?cam = "cam\<lparr>initTemplate_calls := initTemplate_calls cam @ [type],
                      mTemplates := (mTemplates cam)(type := Some ?block)\<rparr>"
      have first: "constructDefaultRequestSettings (initTemplate ts) type cam = (Some ?block, ?cam)"
        using constructDefaultRequestSettings_success [of type cam "initTemplate ts"] v ok g by simp
      have "mTemplates ?cam type = Some ?block"
        by simp
      then have "constructDefaultRequestSettings (initTemplate ts') type ?cam = (Some ?block, ?cam)"
        using constructDefaultRequestSettings_cached [OF v] by blast
      then show "\<exists>block. constructDefaultRequestSettings (initTemplate ts) type cam
               = (Some block, cam\<lparr>initTemplate_calls := initTemplate_calls cam @ [type],
                                  mTemplates := (mTemplates cam)(type := Some block)\<rparr>)
              \<and> constructDefaultRequestSettings (initTemplate ts') type
                   (snd (constructDefaultRequestSettings (initTemplate ts) type cam))
                 = (Some block, snd (constructDefaultRequestSettings (initTemplate ts) type cam))"
        using first by simp
    qed
    have c3: "mTemplates cam type = None \<and> base_result ts \<noteq> 0 \<longrightarrow>
           constructDefaultRequestSettings (initTemplate ts) type cam
             = (None, cam\<lparr>initTemplate_calls := initTemplate_calls cam @ [type]\<rparr>)"
      using constructDefaultRequestSettings_failure [OF v, of cam "initTemplate ts"]
      by (simp add: initTemplate_result)
    show "(mTemplates cam type = Some t \<longrightarrow>
         constructDefaultRequestSettings (initTemplate ts) type cam = (Some t, cam))
      \<and> (mTemplates cam type = None \<and> base_result ts = 0 \<longrightarrow>
           (\<exists>block. constructDefaultRequestSettings (initTemplate ts) type cam
               = (Some block, cam\<lparr>initTemplate_calls := initTemplate_calls cam @ [type],
                                  mTemplates := (mTemplates cam)(type := Some block)\<rparr>)
              \<and> constructDefaultRequestSettings (initTemplate ts') type
                   (snd (constructDefaultRequestSettings (initTemplate ts) type cam))
                 = (Some block, snd (constructDefaultRequestSettings (initTemplate ts) type cam))))
      \<and> (mTemplates cam type = None \<and> base_result ts \<noteq> 0 \<longrightarrow>
           constructDefaultRequestSettings (initTemplate ts) type cam
             = (None, cam\<lparr>initTemplate_calls := initTemplate_calls cam @ [type]\<rparr>))"
      by (intro conjI) (rule c1, rule c2, rule c3)
  qed
  have d: "(k = CAMERA3_TEMPLATE_ZERO_SHUTTER_LAG \<or> k = CAMERA3_TEMPLATE_MANUAL)
        \<and> mTemplates cam k = None \<longrightarrow>
      mTemplates (snd (constructDefaultRequestSettings (initTemplate ts) type cam)) k = None"
    by (intro impI, elim conjE) (rule unsupported_never_cached)
  show ?thesis
    by (intro conjI) (rule a, rule b, rule d, rule c)
qed

theorem constructDefaultRequestSettings_templates_witness:
  "fst (constructDefaultRequestSettings (initTemplate sample_template_source) 0 sample_camera) = None
   \<and> fst (constructDefaultRequestSettings (initTemplate sample_template_source)
            CAMERA3_TEMPLATE_MANUAL sample_camera) = None
   \<and> fst (constructDefaultRequestSettings (initTemplate sample_template_source)
            CAMERA3_TEMPLATE_PREVIEW sample_camera) \<noteq> None
   \<and> fst (constructDefaultRequestSettings (initTemplate failing_template_source)
            CAMERA3_TEMPLATE_PREVIEW sample_camera) = None"
proof -
  have m: "mTemplates sample_camera t = None" for t
    by (simp add: sample_camera_def)
  have b: "base_result sample_template_source = 0" "base_result failing_template_source \<noteq> 0"
    by (simp_all add: sample_template_source_def failing_template_source_def ENODEV_def)
  have w1: "fst (constructDefaultRequestSettings (initTemplate sample_template_source) 0 sample_camera)
            = None"
    using constructDefaultRequestSettings_templates
        [of 0 sample_template_source sample_camera 5 "[]" sample_template_source, THEN conjunct1]
    by simp
  have w2: "fst (constructDefaultRequestSettings (initTemplate sample_template_source)
            CAMERA3_TEMPLATE_MANUAL sample_camera) = None"
    using constructDefaultRequestSettings_templates
        [of CAMERA3_TEMPLATE_MANUAL sample_template_source sample_camera 5 "[]"
          sample_template_source, THEN conjunct2, THEN conjunct1] m
    by simp
  have p: "CAMERA3_TEMPLATE_PREVIEW = CAMERA3_TEMPLATE_PREVIEW \<or>
           CAMERA3_TEMPLATE_PREVIEW = CAMERA3_TEMPLATE_STILL_CAPTURE \<or>
           CAMERA3_TEMPLATE_PREVIEW = CAMERA3_TEMPLATE_VIDEO_RECORD \<or>
           CAMERA3_TEMPLATE_PREVIEW = CAMERA3_TEMPLATE_VIDEO_SNAPSHOT"
    by simp
  have w3: "fst (constructDefaultRequestSettings (initTemplate sample_template_source)
            CAMERA3_TEMPLATE_PREVIEW sample_camera) \<noteq> None"
    using constructDefaultRequestSettings_templates
        [of CAMERA3_TEMPLATE_PREVIEW sample_template_source sample_camera 5 "[]"
          sample_template_source, THEN conjunct2, THEN conjunct2, THEN conjunct2, THEN mp, OF p,
          THEN conjunct2, THEN conjunct1] m b(1)
    by force
  have w4: "fst (constructDefaultRequestSettings (initTemplate failing_template_source)
            CAMERA3_TEMPLATE_PREVIEW sample_camera) = None"
    using constructDefaultRequestSettings_templates
        [of CAMERA3_TEMPLATE_PREVIEW failing_template_source sample_camera 5 "[]"
          sample_template_source, THEN conjunct2, THEN conjunct2, THEN conjunct2, THEN mp, OF p,
          THEN conjunct2, THEN conjunct2] m b(2)
    by simp
  show ?thesis
    using w1 w2 w3 w4 by simp
qed

section \<open>Properties of the stream configuration\<close>


lemma err_out_result:
  assumes "err_out res newStreams n cam cfg = Some (r, cam', cfg')"
  shows "r = (if res = 0 then - EINVAL else res) \<and> mSettingsSet cam' = mSettingsSet cam
    \<and> mStreams cam' = mStreams cam \<and> mNumStreams cam' = mNumStreams cam
    \<and> (\<exists>h. cam' = cam\<lparr>stream_objects := h\<rparr>)"
  using assms by (auto simp add: err_out_def split: option.splits)

lemma configureStreams_null:
  "configureStreams e None cam = Some (- EINVAL, cam\<lparr>mSettingsSet := False\<rparr>, None)"
  by (simp add: configureStreams_def)

lemma configureStreams_empty:
  "cfg_streams cfg = [] \<Longrightarrow>
     configureStreams e (Some cfg) cam = Some (- EINVAL, cam\<lparr>mSettingsSet := False\<rparr>, Some cfg)"
  by (simp add: configureStreams_def)

lemma configureStreams_latch:
  assumes "configureStreams e stream_config cam = Some (res, cam', cfg')"
  shows "\<not> mSettingsSet cam'"
  using assms
  by (auto simp add: configureStreams_def Let_def
      split: option.splits prod.splits if_splits dest!: err_out_result)

lemma configureStreams_failure_keeps_array:
  assumes "configureStreams e stream_config cam = Some (res, cam', cfg')" and "res \<noteq> 0"
  shows "mStreams cam' = mStreams cam \<and> mNumStreams cam' = mNumStreams cam"
  using assms
  by (auto simp add: configureStreams_def Let_def
      split: option.splits prod.splits if_splits dest!: err_out_result)

lemma processCaptureRequest_no_settings:
  "cr_settings request = [] \<Longrightarrow> \<not> mSettingsSet cam \<Longrightarrow>
     processCaptureRequest e (Some request) cam = (- EINVAL, cam)"
  by (simp add: processCaptureRequest_def)


lemma sample_externals_simps:
  "uninit_newStreams sample_externals = (\<lambda>i. None)"
  "uninit_newStreams stale_array = (\<lambda>i. Some 0)"
  "isValidReuseStream sample_externals = sample_isValidReuseStream"
  "isValidReuseStream stale_array = sample_isValidReuseStream"
  "Category sample_externals = sample_Category"
  "StreamFormat_of_stream sample_externals = sample_StreamFormat_of_stream"
  by (simp_all add: sample_externals_def stale_array_def)

lemma sample_camera_simps:
  "mStreams sample_camera = Some [Some 0]" "mNumStreams sample_camera = 1"
  "stream_objects sample_camera = [Some (sample_Stream\<lparr>mMaxBuffers := 1\<rparr>)]"
  "characteristics sample_camera = sample_characteristics"
  "mSettingsSet sample_camera"
  by (simp_all add: sample_camera_def sample_Stream_def)

lemma mark_current_unused_sample:
  "mark_current_unused (sample_camera\<lparr>mSettingsSet := False\<rparr>)
     = Some [Some (sample_Stream\<lparr>mMaxBuffers := 1\<rparr>)]"
  by (simp add: mark_current_unused_def sample_camera_simps heap_lookup_def heap_store_def
      sample_Stream_def new_Stream_def)

lemma configureStreams_mixed_width:
  "configureStreams sample_externals (Some mixed_width_configuration) sample_camera =
     Some (- EINVAL,
           sample_camera\<lparr>mSettingsSet := False,
             stream_objects := [Some (sample_Stream\<lparr>mMaxBuffers := 1\<rparr>), None, None]\<rparr>,
           Some (mixed_width_configuration
                   \<lparr>cfg_streams := [sample_stream\<lparr>cs_priv := Some 1\<rparr>,
                                    sample_stream\<lparr>cs_width := 320, cs_priv := Some 2\<rparr>]\<rparr>))"
  by (simp add: configureStreams_def mark_current_unused_sample mixed_width_configuration_def
      sample_externals_simps sample_camera_simps Let_def heap_new_def heap_lookup_def
      heap_delete_def deref_def sample_stream_def new_Stream_def sample_Stream_def
      isValidStreamSet_def isSupportedStreamSet_def isInputType_def isOutputType_def
      CAMERA3_STREAM_OUTPUT_def CAMERA3_STREAM_INPUT_def CAMERA3_STREAM_BIDIRECTIONAL_def
      sample_Category_def sample_StreamFormat_of_stream_def sample_HalToV4L2PixelFormat_def
      HAL_PIXEL_FORMAT_YCbCr_420_888_def HAL_PIXEL_FORMAT_IMPLEMENTATION_DEFINED_def
      HAL_PIXEL_FORMAT_BLOB_def V4L2_PIX_FMT_YUV420_def V4L2_PIX_FMT_JPEG_def
      sample_characteristics_def err_out_def destroyStreams_def
      CAMERA3_STREAM_CONFIGURATION_NORMAL_MODE_def upt_rec)

lemma configureStreams_rejected_reuse:
  "configureStreams stale_array (Some rejected_reuse_configuration) sample_camera =
     Some (- EINVAL, sample_camera\<lparr>mSettingsSet := False, stream_objects := [None]\<rparr>,
           Some rejected_reuse_configuration)"
  by (simp add: configureStreams_def mark_current_unused_sample rejected_reuse_configuration_def
      sample_externals_simps sample_camera_simps Let_def heap_new_def heap_lookup_def
      heap_delete_def heap_store_def reuseStream_def sample_isValidReuseStream_def
      sample_stream_def new_Stream_def sample_Stream_def err_out_def destroyStreams_def upt_rec)


text \<open>
  C10. configureStreams clears the settings latch before anything else: whatever the
  configuration, when the call returns, \<open>mSettingsSet\<close> is false. A null and an empty
  configuration are answered -EINVAL with nothing else of the camera changed; every
  failing call leaves \<open>mStreams\<close> and \<open>mNumStreams\<close> as they were. A
  processCaptureRequest with empty settings that follows is rejected with -EINVAL, and
  changes nothing.
\<close>

theorem configureStreams_clears_settings_latch:
  "configureStreams e None cam = Some (- EINVAL, cam\<lparr>mSettingsSet := False\<rparr>, None)
   \<and> (cfg_streams cfg = [] \<longrightarrow>
        configureStreams e (Some cfg) cam = Some (- EINVAL, cam\<lparr>mSettingsSet := False\<rparr>, Some cfg))
   \<and> (configureStreams e stream_config cam = Some (res, cam', cfg') \<longrightarrow>
        \<not> mSettingsSet cam'
        \<and> (res \<noteq> 0 \<longrightarrow> mStreams cam' = mStreams cam \<and> mNumStreams cam' = mNumStreams cam)
        \<and> (cr_settings request = [] \<longrightarrow>
             processCaptureRequest e' (Some request) cam' = (- EINVAL, cam')))"
  using configureStreams_null [of e cam] configureStreams_empty [of cfg e cam]
    configureStreams_latch [of e stream_config cam res cam' cfg']
    configureStreams_failure_keeps_array [of e stream_config cam res cam' cfg']
    processCaptureRequest_no_settings [of request cam' e']
  by blast

theorem configureStreams_clears_settings_latch_witness:
  "mSettingsSet sample_camera
   \<and> processCaptureRequest sample_externals (Some empty_request)
        (fst (snd (the (configureStreams sample_externals None sample_camera))))
      = (- EINVAL, sample_camera\<lparr>mSettingsSet := False\<rparr>)
   \<and> fst (the (configureStreams sample_externals (Some mixed_width_configuration) sample_camera))
        = - EINVAL
   \<and> mStreams (fst (snd (the (configureStreams sample_externals (Some mixed_width_configuration)
                                 sample_camera)))) = Some [Some 0]
   \<and> fst (processCaptureRequest sample_externals (Some empty_request)
             (fst (snd (the (configureStreams sample_externals (Some mixed_width_configuration)
                               sample_camera))))) = - EINVAL"
proof -
  let ?cam = "sample_camera\<lparr>mSettingsSet := False,
                stream_objects := [Some (sample_Stream\<lparr>mMaxBuffers := 1\<rparr>), None, None]\<rparr>"
  let ?cfg = "Some (mixed_width_configuration
                   \<lparr>cfg_streams := [sample_stream\<lparr>cs_priv := Some 1\<rparr>,
                                    sample_stream\<lparr>cs_width := 320, cs_priv := Some 2\<rparr>]\<rparr>)"
  have r: "cr_settings empty_request = []"
    by (simp add: empty_request_def)
  have n: "- EINVAL \<noteq> (0::int)"
    by (simp add: EINVAL_def)
  have a: "configureStreams sample_externals None sample_camera
           = Some (- EINVAL, sample_camera\<lparr>mSettingsSet := False\<rparr>, None)"
    using configureStreams_clears_settings_latch
        [of sample_externals sample_camera mixed_width_configuration None "- EINVAL"
          "sample_camera\<lparr>mSettingsSet := False\<rparr>" None empty_request sample_externals]
    by (rule conjunct1)
  have b: "processCaptureRequest sample_externals (Some empty_request)
             (sample_camera\<lparr>mSettingsSet := False\<rparr>) = (- EINVAL, sample_camera\<lparr>mSettingsSet := False\<rparr>)"
    using configureStreams_clears_settings_latch
        [of sample_externals sample_camera mixed_width_configuration None "- EINVAL"
          "sample_camera\<lparr>mSettingsSet := False\<rparr>" None empty_request sample_externals,
          THEN conjunct2, THEN conjunct2] a r
    by blast
  have c: "mStreams ?cam = mStreams sample_camera
           \<and> processCaptureRequest sample_externals (Some empty_request) ?cam = (- EINVAL, ?cam)"
    using configureStreams_clears_settings_latch
        [of sample_externals sample_camera mixed_width_configuration
          "Some mixed_width_configuration" "- EINVAL" ?cam ?cfg empty_request sample_externals,
          THEN conjunct2, THEN conjunct2] configureStreams_mixed_width r n
    by blast
  show ?thesis
    using a b c sample_camera_simps(1,5) by (simp add: configureStreams_mixed_width)
qed

text \<open>
  C2. The code fails the claim where a stream that claims reuse is rejected before the
  last stream: \<open>err_out\<close> then destroys through the slots of the new array that were
  never written. Here the first of two streams claims to reuse the current stream with
  another width, and the unwritten slot of the second holds the address of the current
  stream: configureStreams returns -EINVAL, \<open>mStreams\<close> and \<open>mNumStreams\<close> are as
  before, but the current stream, which \<open>mStreams\<close> still points to, has been
  destroyed. Where the unwritten slot points to no stream there is no defined result.
\<close>

theorem configureStreams_rejected_reuse_destroys_current:
  "configureStreams stale_array (Some rejected_reuse_configuration) sample_camera =
     Some (- EINVAL, sample_camera\<lparr>mSettingsSet := False, stream_objects := [None]\<rparr>,
           Some rejected_reuse_configuration)
   \<and> mStreams (sample_camera\<lparr>mSettingsSet := False, stream_objects := [None]\<rparr>) = Some [Some 0]
   \<and> mNumStreams (sample_camera\<lparr>mSettingsSet := False, stream_objects := [None]\<rparr>) = 1
   \<and> heap_lookup (stream_objects sample_camera) 0 \<noteq> None
   \<and> heap_lookup (stream_objects (sample_camera\<lparr>mSettingsSet := False, stream_objects := [None]\<rparr>)) 0
       = None
   \<and> configureStreams (sample_externals\<lparr>uninit_newStreams := (\<lambda>i. Some 7)\<rparr>)
        (Some rejected_reuse_configuration) sample_camera = None"
proof -
  have e: "uninit_newStreams (sample_externals\<lparr>uninit_newStreams := (\<lambda>i. Some 7)\<rparr>) = (\<lambda>i. Some 7)"
    "isValidReuseStream (sample_externals\<lparr>uninit_newStreams := (\<lambda>i. Some 7)\<rparr>)
       = sample_isValidReuseStream"
    by (simp_all add: sample_externals_def)
  have "configureStreams (sample_externals\<lparr>uninit_newStreams := (\<lambda>i. Some 7)\<rparr>)
        (Some rejected_reuse_configuration) sample_camera = None"
    by (simp add: configureStreams_def mark_current_unused_sample rejected_reuse_configuration_def
      e sample_camera_simps Let_def heap_new_def heap_lookup_def
      heap_delete_def heap_store_def reuseStream_def sample_isValidReuseStream_def
      sample_stream_def new_Stream_def sample_Stream_def err_out_def destroyStreams_def upt_rec)
  then show ?thesis
    by (simp add: configureStreams_rejected_reuse sample_camera_simps heap_lookup_def)
qed

subsection \<open>The failing paths that wrote every slot\<close>

text \<open>
  A failing configureStreams returns a negative value, and (lemma
  \<open>configureStreams_failure_keeps_array\<close>) keeps \<open>mStreams\<close> and
  \<open>mNumStreams\<close>. Two new streams that differ in width are answered -EINVAL, and
  the two objects created for them are destroyed, whatever the new array held before.
\<close>

lemma SetupBuffers_not_positive: "fst (SetupBuffers e w) \<le> 0"
  by (simp add: SetupBuffers_def ENODEV_def unlockAllBuffers_def Let_def
      split: option.splits prod.splits)

lemma SetFormat_not_positive: "fst (fst (SetFormat e stream m w)) \<le> 0"
proof -
  have "r \<le> 0" if "SetupBuffers e w' = (r, w'')" for w' r w''
    using SetupBuffers_not_positive [of e w'] that by simp
  then show ?thesis
    by (auto simp add: SetFormat_def ENODEV_def EINVAL_def Let_def split: prod.splits)
qed

lemma setupStream_not_positive: "fst (fst (setupStream e stream m w)) \<le> 0"
  using SetFormat_not_positive [of e "stream\<lparr>mDataSpace := HAL_DATASPACE_V0_JFIF\<rparr>" m w]
  by (auto simp add: setupStream_def ENODEV_def EINVAL_def Let_def split: prod.splits)

lemma setupStreams_not_positive:
  "setupStreams e i ps h w = Some (res, h', w') \<Longrightarrow> res \<le> 0"
proof (induction ps arbitrary: i h w)
  case Nil
  then show ?case by simp
next
  case (Cons p ps)
  show ?case
  proof (cases p)
    case None
    then show ?thesis using Cons.prems by simp
  next
    case (Some a)
    then obtain s where s: "heap_lookup h a = Some s"
      using Cons.prems by (auto split: option.splits)
    let ?usage = "(if isInputType s
                   then (if isOutputType s then 0 OR GRALLOC_USAGE_SW_WRITE_OFTEN else 0)
                          OR GRALLOC_USAGE_SW_READ_OFTEN
                   else (if isOutputType s then 0 OR GRALLOC_USAGE_SW_WRITE_OFTEN else 0))"
    obtain r s' m w1 where st:
      "setupStream e (s\<lparr>mUsage := ?usage\<rparr>) (uninit_max_buffers e i) w = ((r, s', m), w1)"
      by (metis surj_pair)
    have r: "r \<le> 0"
      using setupStream_not_positive [of e "s\<lparr>mUsage := ?usage\<rparr>" "uninit_max_buffers e i" w] st
      by simp
    show ?thesis
    proof (cases "r = 0")
      case True
      then have "setupStreams e (Suc i) ps (heap_store h a (s'\<lparr>mMaxBuffers := m\<rparr>)) w1
                 = Some (res, h', w')"
        using Cons.prems Some s st by (simp add: Let_def)
      then show ?thesis by (rule Cons.IH)
    next
      case False
      then have "res = r"
        using Cons.prems Some s st by (simp add: Let_def)
      then show ?thesis using r by simp
    qed
  qed
qed

lemma configureStreams_failure_negative:
  assumes "configureStreams e stream_config cam = Some (res, cam', cfg')" and "res \<noteq> 0"
  shows "res < 0"
  using assms
  by (auto simp add: configureStreams_def Let_def EINVAL_def
      split: option.splits prod.splits if_splits
      dest!: err_out_result setupStreams_not_positive)


lemma isSupportedStreamSet_widths:
  "mWidth s1 \<noteq> mWidth s2 \<Longrightarrow> \<not> isSupportedStreamSet e c [s1, s2] mode"
  by (auto simp add: isSupportedStreamSet_def split: option.splits)

lemma mark_current_unused_latch:
  "mark_current_unused (cam\<lparr>mSettingsSet := b\<rparr>) = mark_current_unused cam"
  by (auto simp add: mark_current_unused_def split: option.splits)

lemma fill_streams_two_new:
  assumes "cs_max_buffers a = 0" and "cs_max_buffers b = 0"
  shows "fill_streams e 0 [a, b] [g0, g1] h =
           Some (True, [a\<lparr>cs_priv := Some (length h)\<rparr>, b\<lparr>cs_priv := Some (Suc (length h))\<rparr>],
                 [Some (length h), Some (Suc (length h))],
                 h @ [Some (new_Stream a), Some (new_Stream b)])"
  using assms by (simp add: heap_new_def Let_def)

lemma destroy_two_new:
  "destroy_each [Some (length h), Some (Suc (length h))]
     (h @ [Some (new_Stream a), Some (new_Stream b)]) = Some (h @ [None, None])"
  by (simp add: heap_lookup_def heap_delete_def nth_append new_Stream_def list_update_append)

lemma deref_two_new:
  "deref_all (h @ [Some s1, Some s2]) [Some (length h), Some (Suc (length h))] = Some [s1, s2]"
  by (simp add: deref_def heap_lookup_def nth_append)

lemma configureStreams_two_new_widths:
  assumes "cfg_streams cfg = [a, b]" and "cs_max_buffers a = 0" and "cs_max_buffers b = 0"
    and "cs_width a \<noteq> cs_width b" and "mark_current_unused cam = Some h"
  shows "configureStreams e (Some cfg) cam =
           Some (- EINVAL,
                 cam\<lparr>mSettingsSet := False, stream_objects := h @ [None, None]\<rparr>,
                 Some (cfg\<lparr>cfg_streams := [a\<lparr>cs_priv := Some (length h)\<rparr>,
                                            b\<lparr>cs_priv := Some (Suc (length h))\<rparr>]\<rparr>))"
proof -
  have w: "mWidth (new_Stream a) \<noteq> mWidth (new_Stream b)"
    using assms(4) by (simp add: new_Stream_def)
  have v: "isValidStreamSet e c (Some [Some (length h), Some (Suc (length h))]) 2 mode
             (h @ [Some (new_Stream a), Some (new_Stream b)]) = Some False" for c mode
    using isSupportedStreamSet_widths [OF w, of e c mode]
    by (simp add: isValidStreamSet_def deref_def heap_lookup_def nth_append Let_def)
  have n: "length (cfg_streams cfg) = 2"
    using assms(1) by simp
  have ne: "cfg_streams cfg \<noteq> []"
    using assms(1) by simp
  have u: "map (uninit_newStreams e) [0..<2] = [uninit_newStreams e 0, uninit_newStreams e 1]"
    by (simp add: upt_rec)
  have f0: "fill_streams e 0 (cfg_streams cfg) (map (uninit_newStreams e) [0..<2]) h =
           Some (True, [a\<lparr>cs_priv := Some (length h)\<rparr>, b\<lparr>cs_priv := Some (Suc (length h))\<rparr>],
                 [Some (length h), Some (Suc (length h))],
                 h @ [Some (new_Stream a), Some (new_Stream b)])"
    unfolding u assms(1) by (rule fill_streams_two_new [OF assms(2,3)])
  have f: "fill_streams e 0 (cfg_streams cfg)
             (map (uninit_newStreams e) [0..<length (cfg_streams cfg)]) h =
           Some (True, [a\<lparr>cs_priv := Some (length h)\<rparr>, b\<lparr>cs_priv := Some (Suc (length h))\<rparr>],
                 [Some (length h), Some (Suc (length h))],
                 h @ [Some (new_Stream a), Some (new_Stream b)])"
    by (simp only: n f0)
  have v': "isValidStreamSet e c (Some [Some (length h), Some (Suc (length h))])
             (length (cfg_streams cfg)) mode
             (h @ [Some (new_Stream a), Some (new_Stream b)]) = Some False" for c mode
    by (simp only: n v)
  have d0: "destroyStreams (Some [Some (length h), Some (Suc (length h))]) 2
             (h @ [Some (new_Stream a), Some (new_Stream b)]) = Some (h @ [None, None])"
    by (simp add: destroyStreams_def heap_lookup_def heap_delete_def nth_append new_Stream_def
        list_update_append)
  have d: "destroyStreams (Some [Some (length h), Some (Suc (length h))])
             (length (cfg_streams cfg))
             (h @ [Some (new_Stream a), Some (new_Stream b)]) = Some (h @ [None, None])"
    by (simp only: n d0)
  show ?thesis
    by (simp add: configureStreams_def Let_def mark_current_unused_latch assms(5) ne f v'
        err_out_def d)
qed

section \<open>Properties of the frame rates\<close>



lemma note_frame_size_durations:
  "mMaxFrameDuration (fst (note_frame_size hal_format fs dr (c, my)))
     = min (snd dr) (mMaxFrameDuration c)"
  "snd (note_frame_size hal_format fs dr (c, my))
     = (if hal_format = HAL_PIXEL_FORMAT_YCbCr_420_888 then min (fst dr) my else my)"
  "mFpsRanges (fst (note_frame_size hal_format fs dr (c, my))) = mFpsRanges c"
  by (simp_all add: note_frame_size_def Let_def min_def)

lemma frame_sizes_loop_durations:
  "frame_sizes_loop e hal_format v4l2_format sizes (c, my) = (0, c', my') \<Longrightarrow>
     mMaxFrameDuration c' =
       fold min (map (\<lambda>fs. snd (snd (GetFormatFrameDurationRange e v4l2_format fs))) sizes)
         (mMaxFrameDuration c)
     \<and> my' = (if hal_format = HAL_PIXEL_FORMAT_YCbCr_420_888
              then fold min (map (\<lambda>fs. fst (snd (GetFormatFrameDurationRange e v4l2_format fs))) sizes) my
              else my)
     \<and> mFpsRanges c' = mFpsRanges c"
proof (induction sizes arbitrary: c my)
  case Nil
  then show ?case by simp
next
  case (Cons fs sizes)
  obtain res dr where g: "GetFormatFrameDurationRange e v4l2_format fs = (res, dr)"
    by (metis surj_pair)
  have res: "res = 0"
    using Cons.prems g by (auto simp add: Let_def split: if_splits)
  let ?c = "c\<lparr>mStreamConfigs := mStreamConfigs c @
                   [[hal_format, fst fs, snd fs,
                     ANDROID_SCALER_AVAILABLE_STREAM_CONFIGURATIONS_OUTPUT]]\<rparr>"
  obtain c1 my1 where n: "note_frame_size hal_format fs dr (?c, my) = (c1, my1)"
    by (metis surj_pair)
  have step: "frame_sizes_loop e hal_format v4l2_format sizes (c1, my1) = (0, c', my')"
    using Cons.prems g res n by (simp add: Let_def)
  have m: "mMaxFrameDuration c1 = min (snd dr) (mMaxFrameDuration c)"
    and y: "my1 = (if hal_format = HAL_PIXEL_FORMAT_YCbCr_420_888 then min (fst dr) my else my)"
    and f: "mFpsRanges c1 = mFpsRanges c"
    using note_frame_size_durations [of hal_format fs dr ?c my] n by simp_all
  show ?case
    using Cons.IH [OF step] g unfolding m y f by simp
qed

lemma hal_formats_loop_durations:
  "hal_formats_loop e hfs (c, my) = (0, c', my') \<Longrightarrow>
     mMaxFrameDuration c' =
       fold min (map snd (concat (map (duration_ranges e) hfs))) (mMaxFrameDuration c)
     \<and> my' = fold min (map fst (concat (map (duration_ranges e)
                  (filter (\<lambda>f. f = HAL_PIXEL_FORMAT_YCbCr_420_888) hfs)))) my
     \<and> mFpsRanges c' = mFpsRanges c"
proof (induction hfs arbitrary: c my)
  case Nil
  then show ?case by simp
next
  case (Cons hf hfs)
  let ?v = "HalToV4L2PixelFormat e hf"
  obtain r sizes where s: "GetFormatFrameSizes e ?v = (r, sizes)"
    by (metis surj_pair)
  obtain r1 c1 my1 where l: "frame_sizes_loop e hf ?v sizes (c, my) = (r1, c1, my1)"
    by (metis prod_cases3)
  have ok: "?v \<noteq> 0" "r = 0" "r1 = 0"
    using Cons.prems s l by (auto simp add: Let_def ENODEV_def split: if_splits)
  have step: "hal_formats_loop e hfs (c1, my1) = (0, c', my')"
    using Cons.prems s l ok by (simp add: Let_def)
  have d: "duration_ranges e hf = map (\<lambda>fs. snd (GetFormatFrameDurationRange e ?v fs)) sizes"
    using s by (simp add: duration_ranges_def)
  have ms: "map snd (duration_ranges e hf)
            = map (\<lambda>fs. snd (snd (GetFormatFrameDurationRange e ?v fs))) sizes"
    and mf: "map fst (duration_ranges e hf)
            = map (\<lambda>fs. fst (snd (GetFormatFrameDurationRange e ?v fs))) sizes"
    by (simp_all add: d)
  have inner: "mMaxFrameDuration c1 = fold min (map snd (duration_ranges e hf)) (mMaxFrameDuration c)"
    "my1 = (if hf = HAL_PIXEL_FORMAT_YCbCr_420_888
            then fold min (map fst (duration_ranges e hf)) my else my)"
    "mFpsRanges c1 = mFpsRanges c"
    using frame_sizes_loop_durations [of e hf ?v sizes c my c1 my1] l ok
    unfolding ms mf by simp_all
  show ?case
    using Cons.IH [OF step] inner by simp
qed


lemma distinct_set_insert: "distinct xs \<Longrightarrow> distinct (set_insert x xs)"
  by (simp add: set_insert_def distinct_insort)

lemma distinct_hal_formats_of: "distinct acc \<Longrightarrow> distinct (hal_formats_of e fs acc)"
  by (induction fs arbitrary: acc) (simp_all add: Let_def distinct_set_insert)

lemma distinct_hal_formats: "distinct (hal_formats e)"
  by (simp add: hal_formats_def distinct_set_insert distinct_hal_formats_of)

lemma filter_eq_single:
  "distinct xs \<Longrightarrow> x \<in> set xs \<Longrightarrow> filter (\<lambda>f. f = x) xs = [x]"
proof (induction xs)
  case Nil
  then show ?case by simp
next
  case (Cons y ys)
  show ?case
  proof (cases "y = x")
    case True
    then have "x \<notin> set ys" using Cons.prems by simp
    then have "filter (\<lambda>f. f = x) ys = []" by (auto simp add: filter_empty_conv)
    then show ?thesis using True by simp
  next
    case False
    then show ?thesis using Cons by simp
  qed
qed

lemma frame_sizes_loop_succeeds:
  "\<forall>fs \<in> set sizes. fst (GetFormatFrameDurationRange e v fs) = 0 \<Longrightarrow>
     fst (frame_sizes_loop e hf v sizes acc) = 0"
proof (induction sizes arbitrary: acc)
  case Nil
  then show ?case by (cases acc) simp
next
  case (Cons fs sizes)
  obtain c my where acc: "acc = (c, my)"
    by (metis surj_pair)
  obtain dr where g: "GetFormatFrameDurationRange e v fs = (0, dr)"
    using Cons.prems by (metis list.set_intros(1) prod.collapse)
  have "fst (frame_sizes_loop e hf v sizes acc') = 0" for acc'
    using Cons.prems by (intro Cons.IH) simp
  then show ?case
    by (simp add: acc g Let_def)
qed

lemma hal_formats_loop_succeeds:
  "\<forall>hal_format \<in> set hfs.
      HalToV4L2PixelFormat e hal_format \<noteq> 0
      \<and> fst (GetFormatFrameSizes e (HalToV4L2PixelFormat e hal_format)) = 0
      \<and> (\<forall>frame_size \<in> set (snd (GetFormatFrameSizes e (HalToV4L2PixelFormat e hal_format))).
            fst (GetFormatFrameDurationRange e (HalToV4L2PixelFormat e hal_format) frame_size) = 0)
   \<Longrightarrow> fst (hal_formats_loop e hfs (c, my)) = 0"
proof (induction hfs arbitrary: c my)
  case Nil
  then show ?case by simp
next
  case (Cons hf hfs)
  let ?v = "HalToV4L2PixelFormat e hf"
  obtain r sizes where s: "GetFormatFrameSizes e ?v = (r, sizes)"
    by (metis surj_pair)
  obtain r1 c1 my1 where l: "frame_sizes_loop e hf ?v sizes (c, my) = (r1, c1, my1)"
    by (metis prod_cases3)
  have v: "?v \<noteq> 0" and r: "r = 0"
    and q: "\<forall>fs \<in> set sizes. fst (GetFormatFrameDurationRange e ?v fs) = 0"
    using Cons.prems s by auto
  have r1: "r1 = 0"
    using frame_sizes_loop_succeeds [OF q, of hf "(c, my)"] l by simp
  have "fst (hal_formats_loop e hfs (c1, my1)) = 0"
    using Cons.prems by (intro Cons.IH) simp
  then show ?case
    using s l v r r1 by (simp add: Let_def)
qed

text \<open>The members as initCharacteristics has them when it enters the loop over the formats.\<close>

lemma initCharacteristics_after_loop:
  assumes "connection_status e = 0" and "fst (GetFormats e) = 0"
    and "HAL_PIXEL_FORMAT_YCbCr_420_888 \<in> set (hal_formats e)"
    and "HAL_PIXEL_FORMAT_BLOB \<in> set (hal_formats e)"
    and "hal_formats_loop e (hal_formats e)
           (c\<lparr>mMaxRawOutputStreams := 0, mMaxStallingOutputStreams := 1,
              mMaxNonStallingOutputStreams := 2, mMaxInputStreams := 0,
              mMaxFrameDuration := INT64_MAX\<rparr>, INT64_MAX) = (res, c3, my)"
  shows "initCharacteristics e c =
           (if res \<noteq> 0 then Some (res, c3)
            else if mMaxFrameDuration c3 = 0 then None
            else if 1000000000 sdiv mMaxFrameDuration c3 > 15 then Some (- ENODEV, c3)
            else if my = 0 then None
            else Some (0, c3\<lparr>mFpsRanges := mFpsRanges c3 @
                               fps_ranges (1000000000 sdiv mMaxFrameDuration c3)
                                 (1000000000 sdiv my),
                             mCharacteristicsInitialized := True\<rparr>))"
proof -
  obtain fs where g: "GetFormats e = (0, fs)"
    using assms(2) by (metis prod.collapse)
  have h: "set_insert HAL_PIXEL_FORMAT_IMPLEMENTATION_DEFINED (hal_formats_of e fs [])
           = hal_formats e"
    by (simp add: hal_formats_def g)
  show ?thesis
    using assms(1,3,4)
    by (simp add: initCharacteristics_def g h assms(5) fps_ranges_def Let_def)
qed


lemma initCharacteristics_success_queries:
  assumes "initCharacteristics e c = Some (0, c')"
  shows "connection_status e = 0 \<and> fst (GetFormats e) = 0
    \<and> HAL_PIXEL_FORMAT_YCbCr_420_888 \<in> set (hal_formats e)
    \<and> HAL_PIXEL_FORMAT_BLOB \<in> set (hal_formats e)"
proof -
  obtain r fs where g: "GetFormats e = (r, fs)"
    by (metis surj_pair)
  have h: "set_insert HAL_PIXEL_FORMAT_IMPLEMENTATION_DEFINED (hal_formats_of e fs [])
           = hal_formats e"
    by (simp add: hal_formats_def g)
  have a: "connection_status e = 0"
    using assms by (auto simp add: initCharacteristics_def Let_def split: if_splits)
  have b: "r = 0"
    using assms a by (auto simp add: initCharacteristics_def g Let_def split: if_splits)
  have c: "HAL_PIXEL_FORMAT_YCbCr_420_888 \<in> set (hal_formats e)"
    using assms a b
    by (auto simp add: initCharacteristics_def g h Let_def ENODEV_def split: if_splits)
  have d: "HAL_PIXEL_FORMAT_BLOB \<in> set (hal_formats e)"
    using assms a b c
    by (auto simp add: initCharacteristics_def g h Let_def ENODEV_def split: if_splits)
  show ?thesis
    using a b c d g by simp
qed

lemma loop_results:
  assumes "HAL_PIXEL_FORMAT_YCbCr_420_888 \<in> set (hal_formats e)"
    and "hal_formats_loop e (hal_formats e)
           (c\<lparr>mMaxRawOutputStreams := 0, mMaxStallingOutputStreams := 1,
              mMaxNonStallingOutputStreams := 2, mMaxInputStreams := 0,
              mMaxFrameDuration := INT64_MAX\<rparr>, INT64_MAX) = (0, c3, my)"
  shows "1000000000 sdiv mMaxFrameDuration c3 = min_fps e"
    and "1000000000 sdiv my = max_yuv_fps e"
    and "mFpsRanges c3 = mFpsRanges c"
    and "mMaxFrameDuration c3
           = smallest (map snd (concat (map (duration_ranges e) (hal_formats e))))"
    and "my = smallest (map fst (duration_ranges e HAL_PIXEL_FORMAT_YCbCr_420_888))"
proof -
  have f: "filter (\<lambda>f. f = HAL_PIXEL_FORMAT_YCbCr_420_888) (hal_formats e)
           = [HAL_PIXEL_FORMAT_YCbCr_420_888]"
    using distinct_hal_formats assms(1) by (rule filter_eq_single)
  note l = hal_formats_loop_durations [OF assms(2), unfolded f]
  show m: "mMaxFrameDuration c3
           = smallest (map snd (concat (map (duration_ranges e) (hal_formats e))))"
    using l by (simp add: smallest_def)
  show y: "my = smallest (map fst (duration_ranges e HAL_PIXEL_FORMAT_YCbCr_420_888))"
    using l by (simp add: smallest_def)
  show "mFpsRanges c3 = mFpsRanges c"
    using l by simp
  show "1000000000 sdiv mMaxFrameDuration c3 = min_fps e"
    by (simp add: m min_fps_def)
  show "1000000000 sdiv my = max_yuv_fps e"
    by (simp add: y max_yuv_fps_def)
qed

text \<open>
  On a device whose YCbCr_420_888 frames last from 33333333 ns to 100000000 ns (30 to 10
  frames per second) and whose JPEG frames last 66666666 ns at most, initCharacteristics
  succeeds and derives the ranges [15, 30] and [30, 30]; with the minimum frame rate of
  YCbCr_420_888, which is 10, the first range would be [10, 30].
\<close>

lemma initCharacteristics_sample_ranges:
  "map_option fst (initCharacteristics sample_externals sample_characteristics) = Some 0
   \<and> map_option (\<lambda>r. mFpsRanges (snd r)) (initCharacteristics sample_externals sample_characteristics)
       = Some [[15, 30], [30, 30]]
   \<and> spec_min_yuv_fps sample_externals = 10
   \<and> fps_ranges (spec_min_yuv_fps sample_externals) (max_yuv_fps sample_externals)
       = [[10, 30], [30, 30]]"
proof -
  have hf: "hal_formats sample_externals = [33, 34, 35]"
    by (simp add: hal_formats_def sample_externals_def sample_V4L2ToHalPixelFormat_def
        set_insert_def V4L2_PIX_FMT_YUV420_def V4L2_PIX_FMT_JPEG_def
        HAL_PIXEL_FORMAT_YCbCr_420_888_def HAL_PIXEL_FORMAT_BLOB_def
        HAL_PIXEL_FORMAT_IMPLEMENTATION_DEFINED_def)
  have se: "GetFormatFrameSizes sample_externals = (\<lambda>f. (0, [(640, 480)]))"
    "GetFormatFrameDurationRange sample_externals = sample_durations"
    "HalToV4L2PixelFormat sample_externals = sample_HalToV4L2PixelFormat"
    "connection_status sample_externals = 0" "GetFormats sample_externals = (0, [V4L2_PIX_FMT_YUV420, V4L2_PIX_FMT_JPEG])"
    by (simp_all add: sample_externals_def)
  have v: "sample_HalToV4L2PixelFormat 33 = V4L2_PIX_FMT_JPEG"
    "sample_HalToV4L2PixelFormat 34 = V4L2_PIX_FMT_YUV420"
    "sample_HalToV4L2PixelFormat 35 = V4L2_PIX_FMT_YUV420"
    by (simp_all add: sample_HalToV4L2PixelFormat_def HAL_PIXEL_FORMAT_YCbCr_420_888_def
        HAL_PIXEL_FORMAT_BLOB_def HAL_PIXEL_FORMAT_IMPLEMENTATION_DEFINED_def)
  have ne: "V4L2_PIX_FMT_YUV420 \<noteq> V4L2_PIX_FMT_JPEG" "V4L2_PIX_FMT_YUV420 \<noteq> 0" "V4L2_PIX_FMT_JPEG \<noteq> 0"
    by (simp_all add: V4L2_PIX_FMT_YUV420_def V4L2_PIX_FMT_JPEG_def)
  have dr: "duration_ranges sample_externals 33 = [(33333333, 66666666)]"
    "duration_ranges sample_externals 34 = [(33333333, 100000000)]"
    "duration_ranges sample_externals 35 = [(33333333, 100000000)]"
    using ne by (simp_all add: duration_ranges_def se v sample_durations_def)
  have l: "hal_formats_loop sample_externals [33, 34, 35]
             (sample_characteristics\<lparr>mMaxRawOutputStreams := 0, mMaxStallingOutputStreams := 1,
                mMaxNonStallingOutputStreams := 2, mMaxInputStreams := 0,
                mMaxFrameDuration := INT64_MAX\<rparr>, INT64_MAX)
           = (0, sample_characteristics
                   \<lparr>mMaxFrameDuration := 66666666,
                    mStreamConfigs := [[33, 640, 480, 0], [34, 640, 480, 0], [35, 640, 480, 0]],
                    mMinFrameDurations := [[33, 640, 480, 33333333], [34, 640, 480, 33333333],
                                           [35, 640, 480, 33333333]],
                    mStallDurations := [[33, 640, 480, 1000000000], [34, 640, 480, 0],
                                        [35, 640, 480, 0]]\<rparr>, 33333333)"
    using ne
    by (simp add: se v sample_durations_def note_frame_size_def INT64_MAX_def Let_def
        sample_characteristics_def HAL_PIXEL_FORMAT_YCbCr_420_888_def HAL_PIXEL_FORMAT_BLOB_def
        ANDROID_SCALER_AVAILABLE_STREAM_CONFIGURATIONS_OUTPUT_def)
  have m: "HAL_PIXEL_FORMAT_YCbCr_420_888 \<in> set (hal_formats sample_externals)"
    "HAL_PIXEL_FORMAT_BLOB \<in> set (hal_formats sample_externals)"
    by (simp_all add: hf HAL_PIXEL_FORMAT_YCbCr_420_888_def HAL_PIXEL_FORMAT_BLOB_def)
  have i: "initCharacteristics sample_externals sample_characteristics =
             Some (0, sample_characteristics
                   \<lparr>mMaxFrameDuration := 66666666,
                    mStreamConfigs := [[33, 640, 480, 0], [34, 640, 480, 0], [35, 640, 480, 0]],
                    mMinFrameDurations := [[33, 640, 480, 33333333], [34, 640, 480, 33333333],
                                           [35, 640, 480, 33333333]],
                    mStallDurations := [[33, 640, 480, 1000000000], [34, 640, 480, 0],
                                        [35, 640, 480, 0]],
                    mFpsRanges := [[15, 30], [30, 30]],
                    mCharacteristicsInitialized := True\<rparr>)"
    using initCharacteristics_after_loop [OF se(4) _ m l [folded hf]]
    by (simp add: se fps_ranges_def signed_divide_int_def sample_characteristics_def)
  have s: "spec_min_yuv_fps sample_externals = 10"
    by (simp add: spec_min_yuv_fps_def HAL_PIXEL_FORMAT_YCbCr_420_888_def dr INT64_MAX_def
        signed_divide_int_def)
  have x: "max_yuv_fps sample_externals = 30"
    by (simp add: max_yuv_fps_def HAL_PIXEL_FORMAT_YCbCr_420_888_def dr smallest_def INT64_MAX_def
        signed_divide_int_def)
  show ?thesis
    by (simp add: i s x fps_ranges_def)
qed


text \<open>
  What the code computes. When initCharacteristics succeeds it derives exactly the FPS ranges
  [min_fps, max_yuv_fps] and [max_yuv_fps, max_yuv_fps], plus [30, 30] when
  max_yuv_fps > 30, where max_yuv_fps is 1000000000 divided by the smallest minimum
  frame duration (in nanoseconds) of YCbCr_420_888, and min_fps is 1000000000 divided by
  the smallest maximum frame duration over all formats, not of YCbCr_420_888 alone; and
  then min_fps is at most 15. When all queries of the device succeed, the device is
  rejected with -ENODEV whenever min_fps > 15, and accepted when min_fps is at most 15
  (and no duration is 0, which the divisions do not allow).
\<close>

lemma initCharacteristics_computes:
  "(initCharacteristics e c = Some (0, c') \<longrightarrow>
      mFpsRanges c' = mFpsRanges c @ fps_ranges (min_fps e) (max_yuv_fps e) \<and> min_fps e \<le> 15)
   \<and> (queries_succeed e \<and> min_fps e > 15 \<longrightarrow>
        (\<exists>c''. initCharacteristics e c = Some (- ENODEV, c'')))
   \<and> (queries_succeed e \<and> min_fps e \<le> 15
        \<and> smallest (map snd (concat (map (duration_ranges e) (hal_formats e)))) \<noteq> 0
        \<and> smallest (map fst (duration_ranges e HAL_PIXEL_FORMAT_YCbCr_420_888)) \<noteq> 0 \<longrightarrow>
        (\<exists>c''. initCharacteristics e c = Some (0, c'')))"
proof -
  let ?c = "c\<lparr>mMaxRawOutputStreams := 0, mMaxStallingOutputStreams := 1,
              mMaxNonStallingOutputStreams := 2, mMaxInputStreams := 0,
              mMaxFrameDuration := INT64_MAX\<rparr>"
  obtain res c3 my where l: "hal_formats_loop e (hal_formats e) (?c, INT64_MAX) = (res, c3, my)"
    by (metis prod_cases3)
  have a: "mFpsRanges c' = mFpsRanges c @ fps_ranges (min_fps e) (max_yuv_fps e) \<and> min_fps e \<le> 15"
    if ok: "initCharacteristics e c = Some (0, c')"
  proof -
    note q = initCharacteristics_success_queries [OF ok]
    have i: "initCharacteristics e c =
           (if res \<noteq> 0 then Some (res, c3)
            else if mMaxFrameDuration c3 = 0 then None
            else if 1000000000 sdiv mMaxFrameDuration c3 > 15 then Some (- ENODEV, c3)
            else if my = 0 then None
            else Some (0, c3\<lparr>mFpsRanges := mFpsRanges c3 @
                               fps_ranges (1000000000 sdiv mMaxFrameDuration c3)
                                 (1000000000 sdiv my),
                             mCharacteristicsInitialized := True\<rparr>))"
      using q l by (intro initCharacteristics_after_loop) simp_all
    have r: "res = 0"
      using ok i by (auto split: if_splits)
    note lr = loop_results [OF _ l [unfolded r]]
    have y: "HAL_PIXEL_FORMAT_YCbCr_420_888 \<in> set (hal_formats e)"
      using q by simp
    show ?thesis
      using ok i r lr(1) [OF y] lr(2) [OF y] lr(3) [OF y]
      by (auto simp add: ENODEV_def split: if_splits)
  qed
  have b: "\<exists>c''. initCharacteristics e c = Some (r, c'')"
    if q: "queries_succeed e"
      and r: "r = (if min_fps e > 15 then - ENODEV else 0)"
      and z: "min_fps e \<le> 15 \<longrightarrow>
        smallest (map snd (concat (map (duration_ranges e) (hal_formats e)))) \<noteq> 0
        \<and> smallest (map fst (duration_ranges e HAL_PIXEL_FORMAT_YCbCr_420_888)) \<noteq> 0" for r
  proof -
    have "fst (hal_formats_loop e (hal_formats e) (?c, INT64_MAX)) = 0"
      using q by (intro hal_formats_loop_succeeds) (simp add: queries_succeed_def)
    then have res: "res = 0"
      using l by simp
    have y: "HAL_PIXEL_FORMAT_YCbCr_420_888 \<in> set (hal_formats e)"
      using q by (simp add: queries_succeed_def)
    note lr = loop_results [OF y l [unfolded res]]
    have i: "initCharacteristics e c =
           (if mMaxFrameDuration c3 = 0 then None
            else if 1000000000 sdiv mMaxFrameDuration c3 > 15 then Some (- ENODEV, c3)
            else if my = 0 then None
            else Some (0, c3\<lparr>mFpsRanges := mFpsRanges c3 @
                               fps_ranges (1000000000 sdiv mMaxFrameDuration c3)
                                 (1000000000 sdiv my),
                             mCharacteristicsInitialized := True\<rparr>))"
      using initCharacteristics_after_loop [OF _ _ _ _ l] q res
      by (simp add: queries_succeed_def)
    have nz: "min_fps e > 15 \<Longrightarrow> mMaxFrameDuration c3 \<noteq> 0"
      using lr(1) by (auto simp add: signed_divide_int_def)
    show ?thesis
      using i r z nz lr(1) lr(4) lr(5) by auto
  qed
  show ?thesis
    using a b [of "- ENODEV"] b [of 0] by auto
qed

text \<open>
  Two devices that differ in the longest JPEG frame only: with 66666666 ns the device is
  accepted, with 50000000 ns it is rejected.
\<close>

lemma initCharacteristics_samples:
  "queries_succeed sample_externals \<and> min_fps sample_externals = 15
   \<and> max_yuv_fps sample_externals = 30
   \<and> (\<exists>c. initCharacteristics sample_externals sample_characteristics = Some (0, c)
           \<and> mFpsRanges c = [[15, 30], [30, 30]])
   \<and> queries_succeed fast_jpeg \<and> min_fps fast_jpeg = 20
   \<and> (\<exists>c. initCharacteristics fast_jpeg sample_characteristics = Some (- ENODEV, c))"
proof -
  have ne: "V4L2_PIX_FMT_YUV420 \<noteq> V4L2_PIX_FMT_JPEG" "V4L2_PIX_FMT_YUV420 \<noteq> 0" "V4L2_PIX_FMT_JPEG \<noteq> 0"
    by (simp_all add: V4L2_PIX_FMT_YUV420_def V4L2_PIX_FMT_JPEG_def)
  have v: "sample_HalToV4L2PixelFormat 33 = V4L2_PIX_FMT_JPEG"
    "sample_HalToV4L2PixelFormat 34 = V4L2_PIX_FMT_YUV420"
    "sample_HalToV4L2PixelFormat 35 = V4L2_PIX_FMT_YUV420"
    by (simp_all add: sample_HalToV4L2PixelFormat_def HAL_PIXEL_FORMAT_YCbCr_420_888_def
        HAL_PIXEL_FORMAT_BLOB_def HAL_PIXEL_FORMAT_IMPLEMENTATION_DEFINED_def)
  have hf: "hal_formats sample_externals = [33, 34, 35]" "hal_formats fast_jpeg = [33, 34, 35]"
    by (simp_all add: hal_formats_def fast_jpeg_def sample_externals_def
        sample_V4L2ToHalPixelFormat_def
        set_insert_def V4L2_PIX_FMT_YUV420_def V4L2_PIX_FMT_JPEG_def
        HAL_PIXEL_FORMAT_YCbCr_420_888_def HAL_PIXEL_FORMAT_BLOB_def
        HAL_PIXEL_FORMAT_IMPLEMENTATION_DEFINED_def)
  have se: "GetFormatFrameSizes sample_externals = (\<lambda>f. (0, [(640, 480)]))"
    "GetFormatFrameDurationRange sample_externals = sample_durations"
    "HalToV4L2PixelFormat sample_externals = sample_HalToV4L2PixelFormat"
    "connection_status sample_externals = 0" "fst (GetFormats sample_externals) = 0"
    by (simp_all add: sample_externals_def)
  have fe: "GetFormatFrameSizes fast_jpeg = (\<lambda>f. (0, [(640, 480)]))"
    "GetFormatFrameDurationRange fast_jpeg =
       (\<lambda>v4l2_format frame_size.
          if v4l2_format = V4L2_PIX_FMT_JPEG then (0, (33333333, 50000000))
          else (0, (33333333, 100000000)))"
    "HalToV4L2PixelFormat fast_jpeg = sample_HalToV4L2PixelFormat"
    "connection_status fast_jpeg = 0" "fst (GetFormats fast_jpeg) = 0"
    by (simp_all add: fast_jpeg_def sample_externals_def)
  have dr: "duration_ranges sample_externals 33 = [(33333333, 66666666)]"
    "duration_ranges sample_externals 34 = [(33333333, 100000000)]"
    "duration_ranges sample_externals 35 = [(33333333, 100000000)]"
    "duration_ranges fast_jpeg 33 = [(33333333, 50000000)]"
    "duration_ranges fast_jpeg 34 = [(33333333, 100000000)]"
    "duration_ranges fast_jpeg 35 = [(33333333, 100000000)]"
    using ne by (simp_all add: duration_ranges_def se fe v sample_durations_def)
  have q: "queries_succeed sample_externals" "queries_succeed fast_jpeg"
    using ne
    by (simp_all add: queries_succeed_def hf se fe v sample_durations_def
        HAL_PIXEL_FORMAT_YCbCr_420_888_def HAL_PIXEL_FORMAT_BLOB_def)
  have m: "min_fps sample_externals = 15" "min_fps fast_jpeg = 20"
    "max_yuv_fps sample_externals = 30"
    "smallest (map snd (concat (map (duration_ranges sample_externals)
       (hal_formats sample_externals)))) \<noteq> 0"
    "smallest (map fst (duration_ranges sample_externals HAL_PIXEL_FORMAT_YCbCr_420_888)) \<noteq> 0"
    by (simp_all add: min_fps_def max_yuv_fps_def hf dr smallest_def INT64_MAX_def
        HAL_PIXEL_FORMAT_YCbCr_420_888_def signed_divide_int_def)
  obtain c1 where c1: "initCharacteristics sample_externals sample_characteristics = Some (0, c1)"
    using initCharacteristics_computes [of sample_externals sample_characteristics c1] q(1) m
    by auto
  have r: "mFpsRanges c1 = [[15, 30], [30, 30]]"
    using initCharacteristics_computes [of sample_externals sample_characteristics c1] c1 m
    by (simp add: fps_ranges_def sample_characteristics_def)
  have f: "\<exists>c. initCharacteristics fast_jpeg sample_characteristics = Some (- ENODEV, c)"
    using initCharacteristics_computes [of fast_jpeg sample_characteristics c1] q(2) m(2)
    by simp
  show ?thesis
    using q m c1 r f by simp
qed

text \<open>
  C7. The code does not take the minimum frame rate from YCbCr_420_888, as the claim and
  the code's own comment (\<open>mi and ma are min and max frame rates for YUV_420_888. Min
  should be at most 15\<close>) say: \<open>min_yuv_fps\<close> is computed from \<open>mMaxFrameDuration\<close>, the
  smallest maximum frame duration over all formats. On a device whose YCbCr_420_888
  frames last from 33333333 ns to 100000000 ns (30 to 10 frames per second) and whose
  JPEG frames last 66666666 ns at most, initCharacteristics derives the ranges [15, 30]
  and [30, 30], where the minimum rate of YCbCr_420_888, 10, gives [10, 30] and
  [30, 30]. With JPEG frames of 50000000 ns at most the device is rejected with -ENODEV,
  although the minimum rate of YCbCr_420_888 is still 10, which is at most 15.
\<close>

theorem initCharacteristics_min_fps_over_all_formats:
  "map_option fst (initCharacteristics sample_externals sample_characteristics) = Some 0
   \<and> map_option (\<lambda>r. mFpsRanges (snd r)) (initCharacteristics sample_externals sample_characteristics)
       = Some [[15, 30], [30, 30]]
   \<and> spec_min_yuv_fps sample_externals = 10
   \<and> max_yuv_fps sample_externals = 30
   \<and> fps_ranges (spec_min_yuv_fps sample_externals) (max_yuv_fps sample_externals)
       = [[10, 30], [30, 30]]
   \<and> map_option fst (initCharacteristics fast_jpeg sample_characteristics) = Some (- ENODEV)
   \<and> spec_min_yuv_fps fast_jpeg = 10"
proof -
  have ne: "V4L2_PIX_FMT_YUV420 \<noteq> V4L2_PIX_FMT_JPEG"
    by (simp add: V4L2_PIX_FMT_YUV420_def V4L2_PIX_FMT_JPEG_def)
  have d: "duration_ranges fast_jpeg 35 = [(33333333, 100000000)]"
    using ne
    by (simp add: duration_ranges_def fast_jpeg_def sample_externals_def
        sample_HalToV4L2PixelFormat_def HAL_PIXEL_FORMAT_YCbCr_420_888_def
        HAL_PIXEL_FORMAT_BLOB_def HAL_PIXEL_FORMAT_IMPLEMENTATION_DEFINED_def)
  have s: "spec_min_yuv_fps fast_jpeg = 10"
    by (simp add: spec_min_yuv_fps_def HAL_PIXEL_FORMAT_YCbCr_420_888_def d INT64_MAX_def
        signed_divide_int_def)
  obtain c where "initCharacteristics fast_jpeg sample_characteristics = Some (- ENODEV, c)"
    using initCharacteristics_samples by blast
  then have f: "map_option fst (initCharacteristics fast_jpeg sample_characteristics)
                = Some (- ENODEV)"
    by simp
  have x: "max_yuv_fps sample_externals = 30"
    using initCharacteristics_samples by simp
  show ?thesis
    using initCharacteristics_sample_ranges x s f by (simp add: fps_ranges_def)
qed

end
